theory Spec2Isabelle
  imports Complex_Main "HOL-Library.AList"
begin

section \<open>JavaScript numbers\<close>

text \<open>
  Quantities that the engine obtains by division (progress, speed, the tuner's
  proposal) are JavaScript numbers: a finite value, idealised as a real (rounding of
  doubles is not modelled), or one of \<open>Infinity\<close>, \<open>-Infinity\<close>, \<open>NaN\<close>. A zero
  divisor is taken as \<open>+0\<close>.
\<close>

datatype jsnum = Fin real | PosInf | NegInf | NaN

fun js_add :: "jsnum \<Rightarrow> jsnum \<Rightarrow> jsnum" where
  "js_add (Fin a) (Fin b) = Fin (a + b)"
| "js_add NaN _ = NaN"
| "js_add _ NaN = NaN"
| "js_add PosInf NegInf = NaN"
| "js_add NegInf PosInf = NaN"
| "js_add PosInf _ = PosInf"
| "js_add NegInf _ = NegInf"
| "js_add _ PosInf = PosInf"
| "js_add _ NegInf = NegInf"

fun js_neg :: "jsnum \<Rightarrow> jsnum" where
  "js_neg (Fin a) = Fin (- a)"
| "js_neg PosInf = NegInf"
| "js_neg NegInf = PosInf"
| "js_neg NaN = NaN"

definition js_sub :: "jsnum \<Rightarrow> jsnum \<Rightarrow> jsnum" where
  "js_sub a b = js_add a (js_neg b)"

fun js_mul :: "jsnum \<Rightarrow> jsnum \<Rightarrow> jsnum" where
  "js_mul (Fin a) (Fin b) = Fin (a * b)"
| "js_mul NaN _ = NaN"
| "js_mul _ NaN = NaN"
| "js_mul (Fin a) PosInf = (if a = 0 then NaN else if 0 < a then PosInf else NegInf)"
| "js_mul (Fin a) NegInf = (if a = 0 then NaN else if 0 < a then NegInf else PosInf)"
| "js_mul PosInf (Fin b) = (if b = 0 then NaN else if 0 < b then PosInf else NegInf)"
| "js_mul NegInf (Fin b) = (if b = 0 then NaN else if 0 < b then NegInf else PosInf)"
| "js_mul PosInf PosInf = PosInf"
| "js_mul NegInf NegInf = PosInf"
| "js_mul PosInf NegInf = NegInf"
| "js_mul NegInf PosInf = NegInf"

fun js_div :: "jsnum \<Rightarrow> jsnum \<Rightarrow> jsnum" where
  "js_div (Fin a) (Fin b) =
     (if b \<noteq> 0 then Fin (a / b)
      else if 0 < a then PosInf else if a < 0 then NegInf else NaN)"
| "js_div NaN _ = NaN"
| "js_div _ NaN = NaN"
| "js_div (Fin a) PosInf = Fin 0"
| "js_div (Fin a) NegInf = Fin 0"
| "js_div PosInf (Fin b) = (if 0 \<le> b then PosInf else NegInf)"
| "js_div NegInf (Fin b) = (if 0 \<le> b then NegInf else PosInf)"
| "js_div PosInf _ = NaN"
| "js_div NegInf _ = NaN"

text \<open>The comparison \<^verbatim>\<open>a < b\<close>; every comparison with \<open>NaN\<close> is false.\<close>

fun js_less :: "jsnum \<Rightarrow> jsnum \<Rightarrow> bool" where
  "js_less (Fin a) (Fin b) = (a < b)"
| "js_less NaN _ = False"
| "js_less _ NaN = False"
| "js_less PosInf _ = False"
| "js_less _ NegInf = False"
| "js_less NegInf _ = True"
| "js_less _ PosInf = True"

text \<open>\<^verbatim>\<open>Math.min\<close>, \<^verbatim>\<open>Math.max\<close>, \<^verbatim>\<open>Math.abs\<close>, \<^verbatim>\<open>Math.round\<close>, \<^verbatim>\<open>Math.log2\<close>
  and \<^verbatim>\<open>Math.pow(2, x)\<close>.\<close>

definition js_min :: "jsnum \<Rightarrow> jsnum \<Rightarrow> jsnum" where
  "js_min a b = (if a = NaN \<or> b = NaN then NaN else if js_less b a then b else a)"

definition js_max :: "jsnum \<Rightarrow> jsnum \<Rightarrow> jsnum" where
  "js_max a b = (if a = NaN \<or> b = NaN then NaN else if js_less a b then b else a)"

fun js_abs :: "jsnum \<Rightarrow> jsnum" where
  "js_abs (Fin a) = Fin \<bar>a\<bar>"
| "js_abs PosInf = PosInf"
| "js_abs NegInf = PosInf"
| "js_abs NaN = NaN"

fun js_round :: "jsnum \<Rightarrow> jsnum" where
  "js_round (Fin a) = Fin (of_int (round a))"
| "js_round x = x"

fun js_log2 :: "jsnum \<Rightarrow> jsnum" where
  "js_log2 (Fin a) = (if 0 < a then Fin (log 2 a) else if a = 0 then NegInf else NaN)"
| "js_log2 PosInf = PosInf"
| "js_log2 NegInf = NaN"
| "js_log2 NaN = NaN"

fun js_pow2 :: "jsnum \<Rightarrow> jsnum" where
  "js_pow2 (Fin a) = Fin (2 powr a)"
| "js_pow2 PosInf = PosInf"
| "js_pow2 NegInf = Fin 0"
| "js_pow2 NaN = NaN"

section \<open>Data model of the upload engine\<close>

text \<open>
  The client-side upload engine lives in \<^verbatim>\<open>services/UploadManager.js\<close> and
  \<^verbatim>\<open>utils/uploadUtils.js\<close>. Byte offsets, counts, indices and millisecond clock
  readings are natural numbers (JavaScript numbers that hold integers below \<open>2^53\<close>
  exactly).
\<close>

datatype UPLOAD_STATUS = PENDING | UPLOADING | PAUSED | COMPLETED | FAILED | CANCELLED

datatype js_error = RangeError | TypeError | Error string

text \<open>
  A call either returns or throws; a throw keeps the state as it was mutated up to
  the throwing statement.
\<close>

datatype 'a completion = Normal 'a | Throw js_error 'a

fun state_of :: "'a completion \<Rightarrow> 'a" where
  "state_of (Normal s) = s"
| "state_of (Throw e s) = s"

record js_file =
  name_f :: string
  size_f :: nat

text \<open>
  The object returned by \<^verbatim>\<open>generateChunkMetadata\<close>. Its Blob \<^verbatim>\<open>chunk\<close> is
  \<^verbatim>\<open>file.slice(start, end)\<close>, determined by \<open>start\<close> and \<open>end_c\<close>, and is not
  repeated here. \<open>size_c\<close> is \<^verbatim>\<open>end - start\<close>, an integer that is negative when the
  index lies beyond the file.
\<close>

record chunk_metadata =
  chunkIndex :: nat
  start :: nat
  end_c :: nat
  size_c :: int
  isLast :: bool

record chunk = chunk_metadata +
  status_c :: UPLOAD_STATUS
  hash :: "string option"
  uploadUrl :: "string option"
  retryCount :: nat

record upload_options =
  chunkSize :: nat
  concurrency :: nat
  autoTune :: bool

text \<open>The \<^verbatim>\<open>options\<close> argument of \<^verbatim>\<open>createUpload\<close>: each key may be absent.\<close>

record options_override =
  chunkSize_o :: "nat option"
  concurrency_o :: "nat option"
  autoTune_o :: "bool option"

text \<open>
  The ETA text: \<^verbatim>\<open>'Calculating...'\<close>, or the rounded number followed by
  \<^verbatim>\<open>s\<close>, \<^verbatim>\<open>m\<close> or \<^verbatim>\<open>h\<close>.
\<close>

datatype eta_text = Calculating | Seconds jsnum | Minutes jsnum | Hours jsnum

text \<open>
  The sets \<^verbatim>\<open>completedChunks\<close> and \<^verbatim>\<open>failedChunks\<close> are JavaScript \<^verbatim>\<open>Set\<close>s:
  lists without repetition, in insertion order.
\<close>

record upload =
  id_u :: string
  file_u :: js_file
  storageType :: string
  status :: UPLOAD_STATUS
  progress :: jsnum
  speed :: jsnum
  eta :: eta_text
  chunks :: "chunk list"
  completedChunks :: "nat list"
  failedChunks :: "nat list"
  startTime :: "nat option"
  endTime :: "nat option"
  error :: "string option"
  options :: upload_options
  fileHash :: "string option"
  uploadId :: "string option"
  chunkUrls :: "string list"
  finalUrl :: "string option"

record sample =
  speed_s :: jsnum
  latency :: real
  timestamp :: nat

record NetworkDiagnostics =
  samples :: "sample list"
  maxSamples :: nat

text \<open>
  What the manager sends out: messages to the two workers, the two control-plane
  requests, and the retry timer, whose callback is \<^verbatim>\<open>uploadChunk(upload, chunk)\<close>.
  The header \<^verbatim>\<open>Content-Range\<close> of an upload message is kept as the three numbers
  \<^verbatim>\<open>start\<close>, \<^verbatim>\<open>end - 1\<close> and \<^verbatim>\<open>file.size\<close>.
\<close>

datatype effect =
    HASH_FILE js_file
  | HASH_CHUNK nat
  | UPLOAD_CHUNK nat "string option" "int \<times> int \<times> int" "string option"
  | FetchInitialize string
  | FetchFinalize "string option" string
  | SetTimeout real string nat

text \<open>
  The manager. \<^verbatim>\<open>uploads\<close> is a \<^verbatim>\<open>Map\<close>, iterated in insertion order: an
  association list. \<open>effects\<close> is the log of everything sent out so far.
\<close>

record manager =
  options_m :: upload_options
  uploads :: "(string \<times> upload) list"
  networkDiagnostics :: NetworkDiagnostics
  effects :: "effect list"

record Semaphore =
  maxConcurrency :: nat
  currentConcurrency :: int
  queue :: "nat list"

text \<open>The payloads of the upload worker's two messages.\<close>

record complete_data =
  chunkIndex_d :: nat

record error_data =
  chunkIndex_e :: nat
  error_e :: string
  retryable :: bool

section \<open>Chunk planning\<close>

definition generateChunkMetadata :: "js_file \<Rightarrow> nat \<Rightarrow> nat \<Rightarrow> chunk_metadata" where
  "generateChunkMetadata f chunk_size index =
     (let st = index * chunk_size;
          en = min (st + chunk_size) (size_f f)
      in \<lparr>chunkIndex = index, start = st, end_c = en,
          size_c = int en - int st, isLast = (en = size_f f)\<rparr>)"

text \<open>
  \<^verbatim>\<open>Math.ceil(file.size / chunkSize)\<close>, then \<^verbatim>\<open>Array.from({ length: totalChunks }, ...)\<close>.
  With \<open>chunkSize = 0\<close> the quotient is \<open>NaN\<close> for an empty file (an array of length 0)
  and \<open>Infinity\<close> otherwise (\<^verbatim>\<open>Array.from\<close> throws a RangeError).
\<close>

definition calculateChunks :: "upload \<Rightarrow> upload completion" where
  "calculateChunks u =
     (let f = file_u u;
          chunk_size = chunkSize (options u)
      in if chunk_size = 0 \<and> 0 < size_f f then Throw RangeError u
         else
           let totalChunks =
                 (if chunk_size = 0 then 0 else nat \<lceil>real (size_f f) / real chunk_size\<rceil>)
           in Normal (u\<lparr>chunks :=
                map (\<lambda>index.
                  let metadata = generateChunkMetadata f chunk_size index
                  in \<lparr>chunkIndex = chunkIndex metadata, start = start metadata,
                      end_c = end_c metadata, size_c = size_c metadata,
                      isLast = isLast metadata,
                      status_c = PENDING, hash = None, uploadUrl = None, retryCount = 0\<rparr>)
                [0..<totalChunks]\<rparr>))"

section \<open>Retry configuration\<close>

text \<open>
  The error object inspected by \<^verbatim>\<open>shouldRetry\<close>: an optional response with its HTTP
  status, and an optional error code.
\<close>

record response =
  status_r :: nat

record request_error =
  response :: "response option"
  code :: "string option"

record retry_config =
  delay :: real
  maxAttempts :: nat
  shouldRetry :: "request_error \<Rightarrow> bool"

text \<open>\<open>rnd\<close> is the value of \<^verbatim>\<open>Math.random()\<close>, a number in \<open>[0, 1)\<close>.\<close>

definition getRetryConfig :: "nat \<Rightarrow> real \<Rightarrow> retry_config" where
  "getRetryConfig attempt rnd =
     (let baseDelay = 1000;
          maxDelay = 30000;
          jitter = rnd * 0.1
      in \<lparr>delay = min (baseDelay * 2 ^ attempt * (1 + jitter)) maxDelay,
          maxAttempts = 5,
          shouldRetry = (\<lambda>err.
            (case response err of
               None \<Rightarrow> True
             | Some r \<Rightarrow> status_r r \<ge> 500 \<or> status_r r = 429 \<or> code err = Some ''NETWORK_ERROR''))\<rparr>)"

section \<open>Network diagnostics\<close>

definition addSample :: "NetworkDiagnostics \<Rightarrow> jsnum \<Rightarrow> real \<Rightarrow> nat \<Rightarrow> NetworkDiagnostics" where
  "addSample nd sp lat now =
     (let pushed = samples nd @ [\<lparr>speed_s = sp, latency = lat, timestamp = now\<rparr>]
      in nd\<lparr>samples := (if length pushed > maxSamples nd then tl pushed else pushed)\<rparr>)"

definition getAverageSpeed :: "NetworkDiagnostics \<Rightarrow> jsnum" where
  "getAverageSpeed nd =
     (if length (samples nd) = 0 then Fin 0
      else js_div (foldl (\<lambda>sum s. js_add sum (speed_s s)) (Fin 0) (samples nd))
                  (Fin (real (length (samples nd)))))"

definition getAverageLatency :: "NetworkDiagnostics \<Rightarrow> real" where
  "getAverageLatency nd =
     (if length (samples nd) = 0 then 0
      else foldl (\<lambda>sum s. sum + latency s) 0 (samples nd) / real (length (samples nd)))"

definition getLatencyVariance :: "NetworkDiagnostics \<Rightarrow> real" where
  "getLatencyVariance nd =
     (if length (samples nd) < 2 then 0
      else
        let avgLatency = getAverageLatency nd;
            variance = foldl (\<lambda>sum s. sum + (latency s - avgLatency) ^ 2) 0 (samples nd)
                         / real (length (samples nd))
        in sqrt variance)"

definition getNetworkStability :: "NetworkDiagnostics \<Rightarrow> real" where
  "getNetworkStability nd =
     (let variance = getLatencyVariance nd;
          avgLatency = getAverageLatency nd
      in if avgLatency > 0 then 1 - (variance / avgLatency) else 0)"

section \<open>Adaptive chunk size\<close>

definition CHUNK_SIZE_OPTIONS :: "nat list" where
  "CHUNK_SIZE_OPTIONS =
     [256 * 1024, 512 * 1024, 1024 * 1024, 2 * 1024 * 1024, 4 * 1024 * 1024,
      8 * 1024 * 1024, 16 * 1024 * 1024]"

definition calculateOptimalChunkSize :: "jsnum \<Rightarrow> real \<Rightarrow> nat \<Rightarrow> jsnum" where
  "calculateOptimalChunkSize networkSpeed lat fileSize =
     (let baseChunkSize = 1024 * 1024;
          speedFactor = js_min (js_div networkSpeed (Fin (1024 * 1024))) (Fin 8);
          latencyFactor = min (lat / 100) 4;
          optimalSize = js_mul (js_mul (Fin baseChunkSize) speedFactor) (Fin (1 + latencyFactor));
          minSize = CHUNK_SIZE_OPTIONS ! 0;
          maxSize = CHUNK_SIZE_OPTIONS ! (length CHUNK_SIZE_OPTIONS - 1);
          clamped = js_max (Fin (real minSize)) (js_min optimalSize (Fin (real maxSize)))
      in js_pow2 (js_round (js_log2 clamped)))"

text \<open>
  The proposal that \<^verbatim>\<open>autoTuneChunkSize\<close> stores is finite (a \<open>NaN\<close> or infinite
  proposal fails the comparison before it) and is a power of two between \<open>2^18\<close> and
  \<open>2^24\<close>: it is read back as a natural number.
\<close>

fun js_to_nat :: "jsnum \<Rightarrow> nat" where
  "js_to_nat (Fin a) = nat \<lfloor>a\<rfloor>"
| "js_to_nat x = 0"

definition autoTuneChunkSize :: "upload \<Rightarrow> NetworkDiagnostics \<Rightarrow> upload completion" where
  "autoTuneChunkSize u nd =
     (let avgSpeed = getAverageSpeed nd;
          stability = getNetworkStability nd
      in if js_less (Fin 0) avgSpeed \<and> stability > 0.7 then
           let optimalSize = calculateOptimalChunkSize avgSpeed 0 (size_f (file_u u));
               current = chunkSize (options u)
           in if js_less (Fin (real current * 0.5)) (js_abs (js_sub optimalSize (Fin (real current))))
              then
                let u' = u\<lparr>options := (options u)\<lparr>chunkSize := js_to_nat optimalSize\<rparr>\<rparr>
                in (case calculateChunks u' of
                      Normal u'' \<Rightarrow> Normal u''
                    | Throw e _ \<Rightarrow> Throw e u')
              else Normal u
         else Normal u)"

section \<open>The semaphore\<close>

definition new_Semaphore :: "nat \<Rightarrow> Semaphore" where
  "new_Semaphore maxc = \<lparr>maxConcurrency = maxc, currentConcurrency = 0, queue = []\<rparr>"

text \<open>
  \<^verbatim>\<open>acquire\<close> resolves at once while a permit is free (the flag is \<open>True\<close>) and
  queues the resolver otherwise. A queued resolver is named by the chunk that waits.
  \<^verbatim>\<open>release\<close> hands the permit to the oldest waiter, which it returns.
\<close>

definition acquire :: "Semaphore \<Rightarrow> nat \<Rightarrow> Semaphore \<times> bool" where
  "acquire s waiter =
     (if currentConcurrency s < int (maxConcurrency s)
      then (s\<lparr>currentConcurrency := currentConcurrency s + 1\<rparr>, True)
      else (s\<lparr>queue := queue s @ [waiter]\<rparr>, False))"

definition release :: "Semaphore \<Rightarrow> Semaphore \<times> nat option" where
  "release s =
     (let s1 = s\<lparr>currentConcurrency := currentConcurrency s - 1\<rparr>
      in case queue s1 of
           [] \<Rightarrow> (s1, None)
         | waiter # rest \<Rightarrow>
             (s1\<lparr>queue := rest, currentConcurrency := currentConcurrency s1 + 1\<rparr>, Some waiter))"

section \<open>The upload manager\<close>

definition new_NetworkDiagnostics :: NetworkDiagnostics where
  "new_NetworkDiagnostics = \<lparr>samples = [], maxSamples = 10\<rparr>"

definition merge_options :: "upload_options \<Rightarrow> options_override \<Rightarrow> upload_options" where
  "merge_options base ov =
     \<lparr>chunkSize = (case chunkSize_o ov of None \<Rightarrow> chunkSize base | Some v \<Rightarrow> v),
      concurrency = (case concurrency_o ov of None \<Rightarrow> concurrency base | Some v \<Rightarrow> v),
      autoTune = (case autoTune_o ov of None \<Rightarrow> autoTune base | Some v \<Rightarrow> v)\<rparr>"

definition new_UploadManager :: "options_override \<Rightarrow> manager" where
  "new_UploadManager ov =
     \<lparr>options_m = merge_options \<lparr>chunkSize = 1024 * 1024, concurrency = 3, autoTune = True\<rparr> ov,
      uploads = [],
      networkDiagnostics = new_NetworkDiagnostics,
      effects = []\<rparr>"

text \<open>\<^verbatim>\<open>Set.prototype.add\<close>.\<close>

definition set_add :: "nat list \<Rightarrow> nat \<Rightarrow> nat list" where
  "set_add xs x = (if x \<in> set xs then xs else xs @ [x])"

text \<open>The decimal text of a number inside a template string.\<close>

fun show_nat :: "nat \<Rightarrow> string" where
  "show_nat n =
     (if n < 10 then [''0123456789'' ! n]
      else show_nat (n div 10) @ [''0123456789'' ! (n mod 10)])"

declare show_nat.simps [simp del]

text \<open>
  \<^verbatim>\<open>createUpload\<close>: \<open>new_upload\<close> is the object literal it starts from, with the
  options already merged; \<open>upload_id\<close> is the value of \<^verbatim>\<open>generateUploadId()\<close>.
\<close>

definition new_upload :: "string \<Rightarrow> js_file \<Rightarrow> string \<Rightarrow> upload_options \<Rightarrow> upload" where
  "new_upload upload_id f st opts =
     \<lparr>id_u = upload_id, file_u = f, storageType = st, status = PENDING,
      progress = Fin 0, speed = Fin 0, eta = Calculating, chunks = [],
      completedChunks = [], failedChunks = [], startTime = None, endTime = None,
      error = None, options = opts,
      fileHash = None, uploadId = None, chunkUrls = [], finalUrl = None\<rparr>"

definition createUpload ::
  "manager \<Rightarrow> string \<Rightarrow> js_file \<Rightarrow> string \<Rightarrow> options_override \<Rightarrow> manager completion" where
  "createUpload m upload_id f st ov =
     (let u = new_upload upload_id f st (merge_options (options_m m) ov)
      in case calculateChunks u of
           Throw e _ \<Rightarrow> Throw e m
         | Normal u' \<Rightarrow>
             Normal (m\<lparr>effects := effects m @ [HASH_FILE f],
                       uploads := AList.update upload_id u' (uploads m)\<rparr>))"

text \<open>
  \<^verbatim>\<open>uploadChunk(upload, chunk)\<close> up to its first suspension: the status is set, and
  either the chunk's hash is requested (the upload message follows in
  \<open>uploadChunk_hashed\<close> when the hash arrives) or the upload message is posted. The
  chunk object is named by its position in the upload's current plan.
\<close>

definition upload_message :: "upload \<Rightarrow> chunk \<Rightarrow> effect" where
  "upload_message u c =
     UPLOAD_CHUNK (chunkIndex c) (uploadUrl c)
       (int (start c), int (end_c c) - 1, int (size_f (file_u u))) (hash c)"

definition uploadChunk :: "upload \<Rightarrow> nat \<Rightarrow> upload \<times> effect list" where
  "uploadChunk u k =
     (if k < length (chunks u) then
        let c = (chunks u ! k)\<lparr>status_c := UPLOADING\<rparr>;
            u' = u\<lparr>chunks := (chunks u)[k := c]\<rparr>
        in if hash c = None \<or> hash c = Some []
           then (u', [HASH_CHUNK (chunkIndex c)])
           else (u', [upload_message u' c])
      else (u, []))"

definition uploadChunk_hashed :: "upload \<Rightarrow> nat \<Rightarrow> string \<Rightarrow> upload \<times> effect list" where
  "uploadChunk_hashed u k h =
     (if k < length (chunks u) then
        let c = (chunks u ! k)\<lparr>hash := Some h\<rparr>;
            u' = u\<lparr>chunks := (chunks u)[k := c]\<rparr>
        in (u', [upload_message u' c])
      else (u, []))"

text \<open>
  \<^verbatim>\<open>uploadChunksWithConcurrency\<close>: the loop calls \<^verbatim>\<open>acquire\<close> for every pending
  chunk; the callbacks of the promises that resolved run next, in order, each up to
  the first suspension of \<^verbatim>\<open>uploadChunk\<close>. The semaphore is local to the call.
\<close>

fun acquire_each :: "Semaphore \<Rightarrow> nat list \<Rightarrow> Semaphore \<times> nat list" where
  "acquire_each s [] = (s, [])"
| "acquire_each s (k # ks) =
     (case acquire s k of
        (s', ok) \<Rightarrow>
          (case acquire_each s' ks of
             (s'', granted) \<Rightarrow> (s'', if ok then k # granted else granted)))"

fun uploadChunk_each :: "upload \<Rightarrow> nat list \<Rightarrow> upload \<times> effect list" where
  "uploadChunk_each u [] = (u, [])"
| "uploadChunk_each u (k # ks) =
     (case uploadChunk u k of
        (u', fx) \<Rightarrow> (case uploadChunk_each u' ks of (u'', fx') \<Rightarrow> (u'', fx @ fx')))"

definition uploadChunksWithConcurrency :: "upload \<Rightarrow> upload \<times> effect list" where
  "uploadChunksWithConcurrency u =
     (let pendingChunks =
            filter (\<lambda>k. status_c (chunks u ! k) = PENDING
                        \<and> chunkIndex (chunks u ! k) \<notin> set (completedChunks u))
                   [0..<length (chunks u)];
          semaphore = new_Semaphore (concurrency (options u));
          (semaphore', granted) = acquire_each semaphore pendingChunks
      in uploadChunk_each u granted)"

text \<open>
  \<^verbatim>\<open>startUpload\<close> up to the request to \<^verbatim>\<open>/api/upload/initialize\<close>, and
  \<open>startUpload_initialized\<close> from its outcome on: an error message, or the provider's
  upload id and the chunk URLs.
\<close>

definition startUpload :: "manager \<Rightarrow> nat \<Rightarrow> string \<Rightarrow> manager completion" where
  "startUpload m now upload_id =
     (case map_of (uploads m) upload_id of
        None \<Rightarrow> Throw (Error ''Upload not found'') m
      | Some u \<Rightarrow>
          Normal (m\<lparr>uploads := AList.update upload_id
                                  (u\<lparr>status := UPLOADING, startTime := Some now\<rparr>) (uploads m),
                    effects := effects m @ [FetchInitialize upload_id]\<rparr>))"

definition startUpload_initialized ::
  "manager \<Rightarrow> string \<Rightarrow> string + string \<times> string list \<Rightarrow> manager completion" where
  "startUpload_initialized m upload_id outcome =
     (case map_of (uploads m) upload_id of
        None \<Rightarrow> Normal m
      | Some u \<Rightarrow>
          (case outcome of
             Inl msg \<Rightarrow>
               Throw (Error msg)
                 (m\<lparr>uploads := AList.update upload_id
                                  (u\<lparr>status := FAILED, error := Some msg\<rparr>) (uploads m)\<rparr>)
           | Inr (server_id, urls) \<Rightarrow>
               let u1 = u\<lparr>uploadId := Some server_id, chunkUrls := urls,
                          chunks := map (\<lambda>(index, c).
                                      c\<lparr>uploadUrl := (if index < length urls
                                                       then Some (urls ! index) else None)\<rparr>)
                                    (zip [0..<length (chunks u)] (chunks u))\<rparr>;
                   (u2, fx) = uploadChunksWithConcurrency u1
               in Normal (m\<lparr>uploads := AList.update upload_id u2 (uploads m),
                            effects := effects m @ fx\<rparr>)))"

definition pauseUpload :: "manager \<Rightarrow> string \<Rightarrow> manager" where
  "pauseUpload m upload_id =
     (case map_of (uploads m) upload_id of
        None \<Rightarrow> m
      | Some u \<Rightarrow> m\<lparr>uploads := AList.update upload_id (u\<lparr>status := PAUSED\<rparr>) (uploads m)\<rparr>)"

definition resumeUpload :: "manager \<Rightarrow> string \<Rightarrow> manager" where
  "resumeUpload m upload_id =
     (case map_of (uploads m) upload_id of
        None \<Rightarrow> m
      | Some u \<Rightarrow>
          if status u = PAUSED then
            let (u', fx) = uploadChunksWithConcurrency (u\<lparr>status := UPLOADING\<rparr>)
            in m\<lparr>uploads := AList.update upload_id u' (uploads m), effects := effects m @ fx\<rparr>
          else m)"

definition cancelUpload :: "manager \<Rightarrow> string \<Rightarrow> manager" where
  "cancelUpload m upload_id =
     (case map_of (uploads m) upload_id of
        None \<Rightarrow> m
      | Some u \<Rightarrow> m\<lparr>uploads := AList.update upload_id (u\<lparr>status := CANCELLED\<rparr>) (uploads m)\<rparr>)"

text \<open>
  \<^verbatim>\<open>findUploadByChunkIndex\<close> walks the uploads in insertion order and returns the
  first whose \<^verbatim>\<open>chunks\<close> array has an entry at the index; the upload object is given
  by its position in that order.
\<close>

fun first_index :: "('a \<Rightarrow> bool) \<Rightarrow> 'a list \<Rightarrow> nat option" where
  "first_index P [] = None"
| "first_index P (x # xs) = (if P x then Some 0 else map_option Suc (first_index P xs))"

definition findUploadByChunkIndex :: "manager \<Rightarrow> nat \<Rightarrow> nat option" where
  "findUploadByChunkIndex m k =
     first_index (\<lambda>(upload_id, u). k < length (chunks u)) (uploads m)"

definition calculateETA :: "int \<Rightarrow> nat \<Rightarrow> jsnum \<Rightarrow> eta_text" where
  "calculateETA bytesUploaded totalBytes sp =
     (if sp = Fin 0 then Calculating
      else
        let remainingBytes = int totalBytes - bytesUploaded;
            secondsRemaining = js_div (Fin (real_of_int remainingBytes)) sp
        in if js_less secondsRemaining (Fin 60) then Seconds (js_round secondsRemaining)
           else if js_less secondsRemaining (Fin 3600)
           then Minutes (js_round (js_div secondsRemaining (Fin 60)))
           else Hours (js_round (js_div secondsRemaining (Fin 3600))))"

text \<open>
  \<^verbatim>\<open>updateUploadProgress\<close>. Reading \<^verbatim>\<open>upload.chunks[chunkIndex].size\<close> for a completed
  index that the plan no longer has throws a TypeError, before anything is assigned.
\<close>

definition updateUploadProgress ::
  "upload \<Rightarrow> NetworkDiagnostics \<Rightarrow> nat \<Rightarrow> (upload \<times> NetworkDiagnostics) completion" where
  "updateUploadProgress u nd now =
     (if \<not> list_all (\<lambda>k. k < length (chunks u)) (completedChunks u) then Throw TypeError (u, nd)
      else
        let completedBytes = foldl (\<lambda>sum k. sum + size_c (chunks u ! k)) 0 (completedChunks u);
            u1 = u\<lparr>progress := js_mul (js_div (Fin (real_of_int completedBytes))
                                               (Fin (real (size_f (file_u u))))) (Fin 100)\<rparr>;
            u2 = (case startTime u1 of
                    None \<Rightarrow> u1
                  | Some t \<Rightarrow>
                      if t = 0 then u1
                      else
                        let elapsed = real_of_int (int now - int t) / 1000;
                            sp = js_div (Fin (real_of_int completedBytes)) (Fin elapsed)
                        in u1\<lparr>speed := sp,
                              eta := calculateETA completedBytes (size_f (file_u u1)) sp\<rparr>);
            nd1 = addSample nd (speed u2) 0 now
        in if autoTune (options u2) \<and> length (completedChunks u2) > 5 then
             (case autoTuneChunkSize u2 nd1 of
                Normal u3 \<Rightarrow> Normal (u3, nd1)
              | Throw e u3 \<Rightarrow> Throw e (u3, nd1))
           else Normal (u2, nd1))"

text \<open>
  \<^verbatim>\<open>checkUploadCompletion\<close> with the start of \<^verbatim>\<open>finalizeUpload\<close> (the request to
  \<^verbatim>\<open>/api/upload/finalize\<close>); \<open>finalizeUpload_done\<close> is \<^verbatim>\<open>finalizeUpload\<close> from the
  outcome of that request on: an error message, or the final URL.
\<close>

definition checkUploadCompletion :: "upload \<Rightarrow> nat \<Rightarrow> upload \<times> effect list" where
  "checkUploadCompletion u now =
     (if length (completedChunks u) = length (chunks u)
      then (u\<lparr>status := COMPLETED, endTime := Some now\<rparr>,
            [FetchFinalize (uploadId u) (storageType u)])
      else (u, []))"

definition finalizeUpload_done :: "upload \<Rightarrow> string + string \<Rightarrow> upload" where
  "finalizeUpload_done u outcome =
     (case outcome of
        Inl msg \<Rightarrow> u\<lparr>status := FAILED, error := Some msg\<rparr>
      | Inr url \<Rightarrow> u\<lparr>finalUrl := Some url\<rparr>)"

definition handleChunkUploadComplete ::
  "manager \<Rightarrow> nat \<Rightarrow> complete_data \<Rightarrow> manager completion" where
  "handleChunkUploadComplete m now d =
     (let k = chunkIndex_d d
      in case findUploadByChunkIndex m k of
           None \<Rightarrow> Normal m
         | Some i \<Rightarrow>
             let (upload_id, u) = uploads m ! i;
                 u1 = u\<lparr>chunks := (chunks u)[k := (chunks u ! k)\<lparr>status_c := COMPLETED\<rparr>],
                        completedChunks := set_add (completedChunks u) k\<rparr>
             in (case updateUploadProgress u1 (networkDiagnostics m) now of
                   Throw e (u2, nd) \<Rightarrow>
                     Throw e (m\<lparr>uploads := (uploads m)[i := (upload_id, u2)],
                                networkDiagnostics := nd\<rparr>)
                 | Normal (u2, nd) \<Rightarrow>
                     let (u3, fx) = checkUploadCompletion u2 now
                     in Normal (m\<lparr>uploads := (uploads m)[i := (upload_id, u3)],
                                  networkDiagnostics := nd,
                                  effects := effects m @ fx\<rparr>)))"

text \<open>
  \<^verbatim>\<open>handleChunkUploadError\<close>; \<open>rnd\<close> is the value of \<^verbatim>\<open>Math.random()\<close> read by
  \<^verbatim>\<open>getRetryConfig\<close>. The timer names the upload by its key in the map and the chunk
  by its index. The comparison of the failed count with \<^verbatim>\<open>chunks.length * 0.1\<close> is
  taken over the reals: for an integer count and a plan of at most some millions of
  chunks the doubles decide it the same way.
\<close>

definition handleChunkUploadError ::
  "manager \<Rightarrow> nat \<Rightarrow> real \<Rightarrow> error_data \<Rightarrow> manager completion" where
  "handleChunkUploadError m now rnd d =
     (let k = chunkIndex_e d
      in case findUploadByChunkIndex m k of
           None \<Rightarrow> Normal m
         | Some i \<Rightarrow>
             let (upload_id, u) = uploads m ! i;
                 c = (chunks u ! k)\<lparr>retryCount := retryCount (chunks u ! k) + 1\<rparr>;
                 (u1, fx) =
                   (if retryable d \<and> retryCount c < 3 then
                      (u\<lparr>chunks := (chunks u)[k := c]\<rparr>,
                       [SetTimeout (delay (getRetryConfig (retryCount c) rnd)) upload_id k])
                    else
                      let failed = set_add (failedChunks u) k;
                          u' = u\<lparr>chunks := (chunks u)[k := c\<lparr>status_c := FAILED\<rparr>],
                                 failedChunks := failed\<rparr>
                      in if real (length failed) > real (length (chunks u')) * 0.1
                         then (u'\<lparr>status := FAILED,
                                   error := Some (''Too many chunk failures: ''
                                                  @ show_nat (length failed) @ ''/''
                                                  @ show_nat (length (chunks u')))\<rparr>, [])
                         else (u', []))
             in (case updateUploadProgress u1 (networkDiagnostics m) now of
                   Throw e (u2, nd) \<Rightarrow>
                     Throw e (m\<lparr>uploads := (uploads m)[i := (upload_id, u2)],
                                networkDiagnostics := nd,
                                effects := effects m @ fx\<rparr>)
                 | Normal (u2, nd) \<Rightarrow>
                     Normal (m\<lparr>uploads := (uploads m)[i := (upload_id, u2)],
                               networkDiagnostics := nd,
                               effects := effects m @ fx\<rparr>)))"

text \<open>The callback of the retry timer: \<^verbatim>\<open>uploadChunk(upload, chunk)\<close>.\<close>

definition retry_timer_fired :: "manager \<Rightarrow> string \<Rightarrow> nat \<Rightarrow> manager" where
  "retry_timer_fired m upload_id k =
     (case map_of (uploads m) upload_id of
        None \<Rightarrow> m
      | Some u \<Rightarrow>
          let (u', fx) = uploadChunk u k
          in m\<lparr>uploads := AList.update upload_id u' (uploads m), effects := effects m @ fx\<rparr>)"

text \<open>The number of chunks of an upload whose status is \<^verbatim>\<open>uploading\<close>.\<close>

definition uploading_count :: "upload \<Rightarrow> nat" where
  "uploading_count u = length (filter (\<lambda>c. status_c c = UPLOADING) (chunks u))"


section \<open>Example sessions\<close>

text \<open>Concrete managers and messages, used to run the operations on.\<close>

definition no_override :: options_override where
  "no_override = \<lparr>chunkSize_o = None, concurrency_o = None, autoTune_o = None\<rparr>"

definition two_uploads :: manager where
  "two_uploads =
     state_of (createUpload
       (state_of (createUpload (new_UploadManager no_override)
          ''upload_a'' \<lparr>name_f = ''a.bin'', size_f = 2097152\<rparr> ''s3'' no_override))
       ''upload_b'' \<lparr>name_f = ''b.bin'', size_f = 3145728\<rparr> ''s3'' no_override)"

definition fifteen_chunks :: manager where
  "fifteen_chunks =
     state_of (createUpload (new_UploadManager no_override)
       ''upload_a'' \<lparr>name_f = ''a.bin'', size_f = 15728640\<rparr> ''s3'' no_override)"

definition bad_request :: "nat \<Rightarrow> error_data" where
  "bad_request k = \<lparr>chunkIndex_e = k, error_e = ''HTTP 400: Bad Request'', retryable = False\<rparr>"

definition fifteen_chunks_one_failed :: manager where
  "fifteen_chunks_one_failed = state_of (handleChunkUploadError fifteen_chunks 2000 0 (bad_request 0))"

definition ten_chunks_started :: manager where
  "ten_chunks_started =
     state_of (startUpload_initialized
       (state_of (startUpload
          (state_of (createUpload (new_UploadManager no_override)
             ''upload_a'' \<lparr>name_f = ''a.bin'', size_f = 10485760\<rparr> ''s3'' no_override))
          1000 ''upload_a''))
       ''upload_a'' (Inr (''srv_1'', [])))"

definition service_unavailable :: "nat \<Rightarrow> error_data" where
  "service_unavailable k =
     \<lparr>chunkIndex_e = k, error_e = ''Upload failed after 3 attempts: HTTP 503: Service Unavailable'',
      retryable = True\<rparr>"

text \<open>Three retryable errors for chunk 0, the retry timer firing after the first two.\<close>

definition three_errors :: manager where
  "three_errors =
     (let m1 = state_of (handleChunkUploadError ten_chunks_started 2000 0 (service_unavailable 0));
          m2 = retry_timer_fired m1 ''upload_a'' 0;
          m3 = state_of (handleChunkUploadError m2 5000 0 (service_unavailable 0));
          m4 = retry_timer_fired m3 ''upload_a'' 0
      in state_of (handleChunkUploadError m4 10000 0 (service_unavailable 0)))"

definition one_permit_started :: manager where
  "one_permit_started =
     state_of (startUpload_initialized
       (state_of (startUpload
          (state_of (createUpload
             (new_UploadManager \<lparr>chunkSize_o = None, concurrency_o = Some 1, autoTune_o = None\<rparr>)
             ''upload_a'' \<lparr>name_f = ''a.bin'', size_f = 2097152\<rparr> ''s3'' no_override))
          1000 ''upload_a''))
       ''upload_a'' (Inr (''srv_1'', [''u0'', ''u1''])))"

definition one_permit_resumed :: manager where
  "one_permit_resumed = resumeUpload (pauseUpload one_permit_started ''upload_a'') ''upload_a''"

definition one_chunk_completed :: manager where
  "one_chunk_completed =
     state_of (handleChunkUploadComplete
       (state_of (startUpload_initialized
          (state_of (startUpload
             (state_of (createUpload (new_UploadManager no_override) ''upload_a''
                          \<lparr>name_f = ''a.bin'', size_f = 1048576\<rparr> ''s3'' no_override))
             1000 ''upload_a''))
          ''upload_a'' (Inr (''srv_1'', [''u0'']))))
       2000 \<lparr>chunkIndex_d = 0\<rparr>)"



section \<open>The chunk plan\<close>

lemma totalChunks_index:
  assumes "0 < cs"
  shows "i < nat \<lceil>real a / real cs\<rceil> \<longleftrightarrow> i * cs < a"
proof -
  have "i < nat \<lceil>real a / real cs\<rceil> \<longleftrightarrow> int i < \<lceil>real a / real cs\<rceil>"
    by linarith
  also have "\<dots> \<longleftrightarrow> real_of_int (int i) < real a / real cs"
    by (rule less_ceiling_iff)
  also have "\<dots> \<longleftrightarrow> real i * real cs < real a"
    using assms by (simp add: pos_less_divide_eq)
  also have "\<dots> \<longleftrightarrow> i * cs < a"
    by (metis of_nat_less_iff of_nat_mult)
  finally show ?thesis .
qed

lemma totalChunks_div:
  assumes "0 < cs"
  shows "nat \<lceil>real a / real cs\<rceil> = (a + cs - 1) div cs"
proof -
  have "i < nat \<lceil>real a / real cs\<rceil> \<longleftrightarrow> i < (a + cs - 1) div cs" for i
  proof -
    have "i < (a + cs - 1) div cs \<longleftrightarrow> Suc i \<le> (a + cs - 1) div cs" by auto
    also have "\<dots> \<longleftrightarrow> Suc i * cs \<le> a + cs - 1"
      using assms by (simp add: less_eq_div_iff_mult_less_eq)
    also have "\<dots> \<longleftrightarrow> i * cs < a" using assms by auto
    finally show ?thesis using totalChunks_index[OF assms] by simp
  qed
  then show ?thesis by (meson linorder_neqE_nat less_irrefl)
qed

lemma sizes_sum:
  "n * cs < a + cs \<Longrightarrow>
   (\<Sum>i\<leftarrow>[0..<n]. int (min (i * cs + cs) a) - int (i * cs)) = int (min (n * cs) a)"
proof (induction n)
  case 0
  then show ?case by simp
next
  case (Suc n)
  then have "n * cs < a" by simp
  then have "n * cs < a + cs" by simp
  from Suc.IH[OF this] \<open>n * cs < a\<close> show ?case by (simp add: add.commute)
qed


lemma calculateChunks_Normal:
  assumes "0 < chunkSize (options u)"
  shows "calculateChunks u = Normal (u\<lparr>chunks :=
           map (\<lambda>index. \<lparr>chunkIndex = index, start = index * chunkSize (options u),
                  end_c = min (index * chunkSize (options u) + chunkSize (options u)) (size_f (file_u u)),
                  size_c = int (min (index * chunkSize (options u) + chunkSize (options u)) (size_f (file_u u)))
                           - int (index * chunkSize (options u)),
                  isLast = (min (index * chunkSize (options u) + chunkSize (options u)) (size_f (file_u u))
                            = size_f (file_u u)),
                  status_c = PENDING, hash = None, uploadUrl = None, retryCount = 0\<rparr>)
               [0..<nat \<lceil>real (size_f (file_u u)) / real (chunkSize (options u))\<rceil>]\<rparr>)"
  using assms by (simp add: calculateChunks_def generateChunkMetadata_def Let_def)

text \<open>
  Claim C3. For a file of positive size and a positive chunk size, \<^verbatim>\<open>calculateChunks\<close>
  returns and replaces the plan by \<open>\<lceil>size / chunkSize\<rceil>\<close> chunks; chunk \<open>i\<close> has index
  \<open>i\<close>, starts at \<open>i * chunkSize\<close>, ends at the minimum of start plus chunk size and the
  file size, has size end minus start, and is last exactly when it ends at the file size.
  The chunks are non-empty, the first starts at 0, each ends where the next starts, the
  last ends at the file size, and the sizes add up to the file size.
\<close>

theorem calculateChunks_partitions:
  fixes u :: upload
  assumes "0 < size_f (file_u u)" and "0 < chunkSize (options u)"
  shows "\<exists>cs. calculateChunks u = Normal (u\<lparr>chunks := cs\<rparr>)
     \<and> length cs = nat \<lceil>real (size_f (file_u u)) / real (chunkSize (options u))\<rceil>
     \<and> (\<forall>i < length cs.
          chunkIndex (cs ! i) = i
        \<and> start (cs ! i) = i * chunkSize (options u)
        \<and> end_c (cs ! i) = min (start (cs ! i) + chunkSize (options u)) (size_f (file_u u))
        \<and> size_c (cs ! i) = int (end_c (cs ! i)) - int (start (cs ! i))
        \<and> isLast (cs ! i) = (end_c (cs ! i) = size_f (file_u u))
        \<and> start (cs ! i) < end_c (cs ! i)
        \<and> (if Suc i < length cs then end_c (cs ! i) = start (cs ! Suc i)
            else end_c (cs ! i) = size_f (file_u u)))
     \<and> 0 < length cs \<and> start (cs ! 0) = 0
     \<and> (\<Sum>c\<leftarrow>cs. size_c c) = int (size_f (file_u u))"
proof -
  define a where "a = size_f (file_u u)"
  define sz where "sz = chunkSize (options u)"
  define n where "n = nat \<lceil>real a / real sz\<rceil>"
  define mk where "mk = (\<lambda>index. \<lparr>chunkIndex = index, start = index * sz,
                  end_c = min (index * sz + sz) a,
                  size_c = int (min (index * sz + sz) a) - int (index * sz),
                  isLast = (min (index * sz + sz) a = a),
                  status_c = PENDING, hash = None, uploadUrl = None, retryCount = 0\<rparr>)"
  define cs where "cs = map mk [0..<n]"
  have pos: "0 < sz" "0 < a" using assms by (simp_all add: sz_def a_def)
  have idx: "i < n \<longleftrightarrow> i * sz < a" for i
    unfolding n_def by (rule totalChunks_index[OF pos(1)])
  have run: "calculateChunks u = Normal (u\<lparr>chunks := cs\<rparr>)"
    using calculateChunks_Normal[OF assms(2)] by (simp add: cs_def mk_def n_def a_def sz_def)
  have len: "length cs = n" by (simp add: cs_def)
  have nth: "cs ! i = mk i" if "i < n" for i using that by (simp add: cs_def)
  have npos: "0 < n" using idx[of 0] pos by simp
  have last_ge: "a \<le> n * sz" using idx[of n] by simp
  have each: "chunkIndex (cs ! i) = i
        \<and> start (cs ! i) = i * sz
        \<and> end_c (cs ! i) = min (start (cs ! i) + sz) a
        \<and> size_c (cs ! i) = int (end_c (cs ! i)) - int (start (cs ! i))
        \<and> isLast (cs ! i) = (end_c (cs ! i) = a)
        \<and> start (cs ! i) < end_c (cs ! i)
        \<and> (if Suc i < length cs then end_c (cs ! i) = start (cs ! Suc i)
            else end_c (cs ! i) = a)" if "i < length cs" for i
  proof -
    have i: "i < n" using that len by simp
    then have lt: "i * sz < a" using idx by simp
    have nxt: "Suc i < n \<Longrightarrow> i * sz + sz < a" using idx[of "Suc i"] by (simp add: add.commute)
    have lst: "\<not> Suc i < n \<Longrightarrow> a \<le> i * sz + sz" using idx[of "Suc i"] by (simp add: add.commute)
    show ?thesis
      using i lt nxt lst pos by (auto simp: nth len mk_def)
  qed
  have "(n - 1) * sz < a" using idx[of "n - 1"] npos by simp
  then have "n * sz < a + sz" using npos by (cases n) simp_all
  from sizes_sum[OF this] have "(\<Sum>c\<leftarrow>cs. size_c c) = int (min (n * sz) a)"
    by (simp add: cs_def mk_def comp_def)
  then have total: "(\<Sum>c\<leftarrow>cs. size_c c) = int a" using last_ge by simp
  have first: "start (cs ! 0) = 0" using npos by (simp add: nth mk_def)
  from each have all: "\<forall>i < length cs. chunkIndex (cs ! i) = i
        \<and> start (cs ! i) = i * sz
        \<and> end_c (cs ! i) = min (start (cs ! i) + sz) a
        \<and> size_c (cs ! i) = int (end_c (cs ! i)) - int (start (cs ! i))
        \<and> isLast (cs ! i) = (end_c (cs ! i) = a)
        \<and> start (cs ! i) < end_c (cs ! i)
        \<and> (if Suc i < length cs then end_c (cs ! i) = start (cs ! Suc i)
            else end_c (cs ! i) = a)" by blast
  have lenpos: "0 < length cs" using npos len by simp
  show ?thesis
    using run len all lenpos first total unfolding n_def a_def sz_def by blast
qed


text \<open>
  Witness for C3: a file of 2.5 MiB in chunks of 1 MiB is planned as three chunks whose
  sizes add up to 2621440.
\<close>

theorem calculateChunks_partitions_witness:
  "\<exists>cs. calculateChunks (new_upload ''upload_a'' \<lparr>name_f = ''a.bin'', size_f = 2621440\<rparr> ''s3''
                \<lparr>chunkSize = 1048576, concurrency = 3, autoTune = True\<rparr>)
          = Normal (new_upload ''upload_a'' \<lparr>name_f = ''a.bin'', size_f = 2621440\<rparr> ''s3''
                \<lparr>chunkSize = 1048576, concurrency = 3, autoTune = True\<rparr>\<lparr>chunks := cs\<rparr>)
      \<and> length cs = 3 \<and> (\<Sum>c\<leftarrow>cs. size_c c) = 2621440"
proof -
  let ?u = "new_upload ''upload_a'' \<lparr>name_f = ''a.bin'', size_f = 2621440\<rparr> ''s3''
                \<lparr>chunkSize = 1048576, concurrency = 3, autoTune = True\<rparr>"
  have h1: "0 < size_f (file_u ?u)" by (simp add: new_upload_def)
  have h2: "0 < chunkSize (options ?u)" by (simp add: new_upload_def)
  have c: "nat \<lceil>real (size_f (file_u ?u)) / real (chunkSize (options ?u))\<rceil> = 3"
    by (simp add: new_upload_def totalChunks_div)
  from calculateChunks_partitions[OF h1 h2] c show ?thesis
    by (auto simp: new_upload_def)
qed

text \<open>
  Claim C4 as stated (an empty file is planned as exactly one chunk) fails: for a file
  of size 0 the plan does not have one chunk.
\<close>

theorem empty_file_counterexample:
  "length (chunks (state_of (calculateChunks
      (new_upload ''upload_a'' \<lparr>name_f = ''empty.txt'', size_f = 0\<rparr> ''s3''
         \<lparr>chunkSize = 1048576, concurrency = 3, autoTune = True\<rparr>)))) \<noteq> 1"
  by (simp add: calculateChunks_def new_upload_def)

text \<open>
  Claim C4, amended. For an empty file and a positive chunk size, \<^verbatim>\<open>calculateChunks\<close>
  returns and the plan has no chunk at all.
\<close>

theorem empty_file_no_chunks:
  assumes "size_f (file_u u) = 0" and "0 < chunkSize (options u)"
  shows "calculateChunks u = Normal (u\<lparr>chunks := []\<rparr>)"
  using assms by (simp add: calculateChunks_def)

text \<open>
  Witness for the amended C4: the empty file with chunks of 1 MiB.
\<close>

theorem empty_file_no_chunks_witness:
  "calculateChunks (new_upload ''upload_a'' \<lparr>name_f = ''empty.txt'', size_f = 0\<rparr> ''s3''
         \<lparr>chunkSize = 1048576, concurrency = 3, autoTune = True\<rparr>)
   = Normal (new_upload ''upload_a'' \<lparr>name_f = ''empty.txt'', size_f = 0\<rparr> ''s3''
         \<lparr>chunkSize = 1048576, concurrency = 3, autoTune = True\<rparr>\<lparr>chunks := []\<rparr>)"
  by (rule empty_file_no_chunks) (simp_all add: new_upload_def)

section \<open>The retry decision and the stability score\<close>

text \<open>
  Claim C6 as stated (an error with HTTP status 408 is retried) fails: \<^verbatim>\<open>shouldRetry\<close>
  rejects an error whose response has status 408 and that carries no error code.
\<close>

theorem shouldRetry_408_counterexample:
  "\<not> shouldRetry (getRetryConfig 0 0) \<lparr>response = Some \<lparr>status_r = 408\<rparr>, code = None\<rparr>"
  by (simp add: getRetryConfig_def)

text \<open>
  Claim C6, amended. \<^verbatim>\<open>shouldRetry\<close> accepts an error exactly when it has no response,
  or its status is at least 500, or its status is 429, or its code is
  \<^verbatim>\<open>NETWORK_ERROR\<close>; every other error with a response, status 408 included, is not
  retried. The attempt number and the jitter do not matter.
\<close>

theorem shouldRetry_iff:
  "shouldRetry (getRetryConfig attempt rnd) err \<longleftrightarrow>
     (response err = None
      \<or> (\<exists>r. response err = Some r \<and> (500 \<le> status_r r \<or> status_r r = 429))
      \<or> code err = Some ''NETWORK_ERROR'')"
  by (auto simp: getRetryConfig_def split: option.splits)

lemma foldl_squares_nonneg:
  "0 \<le> acc \<Longrightarrow> 0 \<le> foldl (\<lambda>sum s. sum + (latency s - a) ^ 2) (acc::real) xs"
  by (induction xs arbitrary: acc) simp_all

lemma getLatencyVariance_nonneg: "0 \<le> getLatencyVariance nd"
  by (simp add: getLatencyVariance_def Let_def foldl_squares_nonneg)

text \<open>
  Claim C8, amended. \<^verbatim>\<open>getNetworkStability\<close> returns one minus the latency deviation
  over the mean latency when the mean latency is positive and 0 otherwise, with no
  clamping; the value is at most 1 for every window of samples (it can be negative).
\<close>

theorem getNetworkStability_unclamped:
  "getNetworkStability nd =
     (if 0 < getAverageLatency nd then 1 - getLatencyVariance nd / getAverageLatency nd else 0)
   \<and> getNetworkStability nd \<le> 1"
  using getLatencyVariance_nonneg[of nd]
  by (simp add: getNetworkStability_def Let_def)

text \<open>
  Claim C8 as stated (the stability lies in \<open>[0, 1]\<close> for every sequence of samples)
  fails: for the latencies 0, 0, 0, 0, 5 the mean is 1, the deviation is 2 and the
  stability is negative.
\<close>

theorem getNetworkStability_counterexample:
  "getNetworkStability
     \<lparr>samples = [\<lparr>speed_s = Fin 0, latency = 0, timestamp = 1\<rparr>,
                 \<lparr>speed_s = Fin 0, latency = 0, timestamp = 2\<rparr>,
                 \<lparr>speed_s = Fin 0, latency = 0, timestamp = 3\<rparr>,
                 \<lparr>speed_s = Fin 0, latency = 0, timestamp = 4\<rparr>,
                 \<lparr>speed_s = Fin 0, latency = 5, timestamp = 5\<rparr>],
      maxSamples = 10\<rparr> < 0"
  by (simp add: getNetworkStability_def getLatencyVariance_def getAverageLatency_def Let_def)

section \<open>What the progress update leaves alone\<close>

lemma calculateChunks_shape: "\<exists>cs. state_of (calculateChunks u) = u\<lparr>chunks := cs\<rparr>"
proof (cases "chunkSize (options u) = 0 \<and> 0 < size_f (file_u u)")
  case True
  then have "state_of (calculateChunks u) = u\<lparr>chunks := chunks u\<rparr>"
    by (simp add: calculateChunks_def)
  then show ?thesis by (rule exI)
next
  case False
  then have "state_of (calculateChunks u) = u\<lparr>chunks := chunks (state_of (calculateChunks u))\<rparr>"
    by (simp add: calculateChunks_def Let_def)
  then show ?thesis by (rule exI)
qed

lemma autoTuneChunkSize_cases:
  "autoTuneChunkSize u nd = Normal u \<or>
   autoTuneChunkSize u nd =
     (case calculateChunks (u\<lparr>options := (options u)\<lparr>chunkSize :=
              js_to_nat (calculateOptimalChunkSize (getAverageSpeed nd) 0 (size_f (file_u u)))\<rparr>\<rparr>) of
        Normal u'' \<Rightarrow> Normal u''
      | Throw e x \<Rightarrow> Throw e (u\<lparr>options := (options u)\<lparr>chunkSize :=
              js_to_nat (calculateOptimalChunkSize (getAverageSpeed nd) 0 (size_f (file_u u)))\<rparr>\<rparr>))"
  by (simp add: autoTuneChunkSize_def Let_def)

lemma autoTuneChunkSize_shape:
  "\<exists>cs sz. state_of (autoTuneChunkSize u nd) = u\<lparr>options := (options u)\<lparr>chunkSize := sz\<rparr>, chunks := cs\<rparr>"
proof -
  define u' where "u' = u\<lparr>options := (options u)\<lparr>chunkSize :=
      js_to_nat (calculateOptimalChunkSize (getAverageSpeed nd) 0 (size_f (file_u u)))\<rparr>\<rparr>"
  consider (keep) "autoTuneChunkSize u nd = Normal u"
    | (tune) "autoTuneChunkSize u nd =
         (case calculateChunks u' of Normal u'' \<Rightarrow> Normal u'' | Throw e x \<Rightarrow> Throw e u')"
    using autoTuneChunkSize_cases[of u nd] unfolding u'_def by blast
  then show ?thesis
  proof cases
    case keep
    then have "state_of (autoTuneChunkSize u nd)
        = u\<lparr>options := (options u)\<lparr>chunkSize := chunkSize (options u)\<rparr>, chunks := chunks u\<rparr>"
      by simp
    then show ?thesis by blast
  next
    case tune
    obtain cs where cs: "state_of (calculateChunks u') = u'\<lparr>chunks := cs\<rparr>"
      using calculateChunks_shape by blast
    have "state_of (autoTuneChunkSize u nd) = u'\<lparr>chunks := cs\<rparr>
        \<or> state_of (autoTuneChunkSize u nd) = u'\<lparr>chunks := chunks u'\<rparr>"
      using cs tune by (cases "calculateChunks u'") simp_all
    then have "state_of (autoTuneChunkSize u nd) = u\<lparr>options := (options u)\<lparr>chunkSize := chunkSize (options u')\<rparr>, chunks := cs\<rparr>
        \<or> state_of (autoTuneChunkSize u nd) = u\<lparr>options := (options u)\<lparr>chunkSize := chunkSize (options u')\<rparr>, chunks := chunks u'\<rparr>"
      by (simp add: u'_def)
    then show ?thesis by blast
  qed
qed


lemma updateUploadProgress_cases:
  "updateUploadProgress u nd now = Throw TypeError (u, nd) \<or>
   (\<exists>p s e. updateUploadProgress u nd now =
      (if autoTune (options u) \<and> 5 < length (completedChunks u) then
         (case autoTuneChunkSize (u\<lparr>progress := p, speed := s, eta := e\<rparr>)
                 (addSample nd s 0 now) of
            Normal u3 \<Rightarrow> Normal (u3, addSample nd s 0 now)
          | Throw err u3 \<Rightarrow> Throw err (u3, addSample nd s 0 now))
       else Normal (u\<lparr>progress := p, speed := s, eta := e\<rparr>, addSample nd s 0 now)))"
proof (cases "list_all (\<lambda>k. k < length (chunks u)) (completedChunks u)")
  case False
  then show ?thesis by (simp add: updateUploadProgress_def)
next
  case True
  define completedBytes where
    "completedBytes = foldl (\<lambda>sum k. sum + size_c (chunks u ! k)) 0 (completedChunks u)"
  define u1 where "u1 = u\<lparr>progress := js_mul (js_div (Fin (real_of_int completedBytes))
                                               (Fin (real (size_f (file_u u))))) (Fin 100)\<rparr>"
  define u2 where "u2 = (case startTime u1 of
                    None \<Rightarrow> u1
                  | Some t \<Rightarrow>
                      if t = 0 then u1
                      else
                        let elapsed = real_of_int (int now - int t) / 1000;
                            sp = js_div (Fin (real_of_int completedBytes)) (Fin elapsed)
                        in u1\<lparr>speed := sp,
                              eta := calculateETA completedBytes (size_f (file_u u1)) sp\<rparr>)"
  define nd1 where "nd1 = addSample nd (speed u2) 0 now"
  have "u2 = u\<lparr>progress := progress u2, speed := speed u2, eta := eta u2\<rparr>"
    unfolding u2_def u1_def
    by (simp add: Let_def split: option.split del: js_div.simps js_mul.simps)
  then obtain p s e where u2: "u2 = u\<lparr>progress := p, speed := s, eta := e\<rparr>"
    by blast
  have nd1: "nd1 = addSample nd s 0 now"
    unfolding nd1_def by (subst u2) simp
  have run: "updateUploadProgress u nd now =
      (if autoTune (options u2) \<and> length (completedChunks u2) > 5 then
             (case autoTuneChunkSize u2 nd1 of
                Normal u3 \<Rightarrow> Normal (u3, nd1)
              | Throw e u3 \<Rightarrow> Throw e (u3, nd1))
           else Normal (u2, nd1))"
    unfolding updateUploadProgress_def u2_def u1_def nd1_def completedBytes_def Let_def
    by (simp only: True not_True_eq_False if_False)
  have "updateUploadProgress u nd now =
      (if autoTune (options u) \<and> 5 < length (completedChunks u) then
         (case autoTuneChunkSize (u\<lparr>progress := p, speed := s, eta := e\<rparr>)
                 (addSample nd s 0 now) of
            Normal u3 \<Rightarrow> Normal (u3, addSample nd s 0 now)
          | Throw err u3 \<Rightarrow> Throw err (u3, addSample nd s 0 now))
       else Normal (u\<lparr>progress := p, speed := s, eta := e\<rparr>, addSample nd s 0 now))"
    unfolding run nd1 unfolding u2 by simp
  then show ?thesis by blast
qed

lemma updateUploadProgress_shape:
  "\<exists>p s e cs sz nd'. state_of (updateUploadProgress u nd now) =
     (u\<lparr>progress := p, speed := s, eta := e,
        options := (options u)\<lparr>chunkSize := sz\<rparr>, chunks := cs\<rparr>, nd')"
proof -
  consider (throw) "updateUploadProgress u nd now = Throw TypeError (u, nd)"
    | (run) p s e where "updateUploadProgress u nd now =
      (if autoTune (options u) \<and> 5 < length (completedChunks u) then
         (case autoTuneChunkSize (u\<lparr>progress := p, speed := s, eta := e\<rparr>)
                 (addSample nd s 0 now) of
            Normal u3 \<Rightarrow> Normal (u3, addSample nd s 0 now)
          | Throw err u3 \<Rightarrow> Throw err (u3, addSample nd s 0 now))
       else Normal (u\<lparr>progress := p, speed := s, eta := e\<rparr>, addSample nd s 0 now))"
    using updateUploadProgress_cases[of u nd now] by blast
  then show ?thesis
  proof cases
    case throw
    then have "state_of (updateUploadProgress u nd now) =
     (u\<lparr>progress := progress u, speed := speed u, eta := eta u,
        options := (options u)\<lparr>chunkSize := chunkSize (options u)\<rparr>, chunks := chunks u\<rparr>, nd)"
      by simp
    then show ?thesis by blast
  next
    case run
    define u2 where "u2 = u\<lparr>progress := p, speed := s, eta := e\<rparr>"
    define nd1 where "nd1 = addSample nd s 0 now"
    obtain cs sz where tuned: "state_of (autoTuneChunkSize u2 nd1) =
        u2\<lparr>options := (options u2)\<lparr>chunkSize := sz\<rparr>, chunks := cs\<rparr>"
      using autoTuneChunkSize_shape by blast
    have "state_of (updateUploadProgress u nd now) = (u2, nd1)
        \<or> state_of (updateUploadProgress u nd now) = (state_of (autoTuneChunkSize u2 nd1), nd1)"
      unfolding run u2_def[symmetric] nd1_def[symmetric]
      by (cases "autoTuneChunkSize u2 nd1") simp_all
    then have "state_of (updateUploadProgress u nd now) =
          (u\<lparr>progress := p, speed := s, eta := e,
             options := (options u)\<lparr>chunkSize := chunkSize (options u)\<rparr>, chunks := chunks u\<rparr>, nd1)
        \<or> state_of (updateUploadProgress u nd now) =
          (u\<lparr>progress := p, speed := s, eta := e,
             options := (options u)\<lparr>chunkSize := sz\<rparr>, chunks := cs\<rparr>, nd1)"
      unfolding tuned unfolding u2_def by simp
    then show ?thesis by blast
  qed
qed

lemma updateUploadProgress_no_tune:
  assumes "\<not> (autoTune (options u) \<and> 5 < length (completedChunks u))"
  shows "chunks (fst (state_of (updateUploadProgress u nd now))) = chunks u"
    and "options (fst (state_of (updateUploadProgress u nd now))) = options u"
  using updateUploadProgress_cases[of u nd now] assms by auto

lemma updateUploadProgress_frame:
  fixes u :: upload and nd :: NetworkDiagnostics and now :: nat
  defines "u' \<equiv> fst (state_of (updateUploadProgress u nd now))"
  shows "status u' = status u" and "error u' = error u"
    and "failedChunks u' = failedChunks u" and "completedChunks u' = completedChunks u"
    and "id_u u' = id_u u" and "file_u u' = file_u u"
    and "concurrency (options u') = concurrency (options u)"
proof -
  obtain p s e cs sz nd' where "state_of (updateUploadProgress u nd now) =
     (u\<lparr>progress := p, speed := s, eta := e,
        options := (options u)\<lparr>chunkSize := sz\<rparr>, chunks := cs\<rparr>, nd')"
    using updateUploadProgress_shape by blast
  then have u': "u' = u\<lparr>progress := p, speed := s, eta := e,
        options := (options u)\<lparr>chunkSize := sz\<rparr>, chunks := cs\<rparr>"
    by (simp add: u'_def)
  show "status u' = status u" and "error u' = error u"
    and "failedChunks u' = failedChunks u" and "completedChunks u' = completedChunks u"
    and "id_u u' = id_u u" and "file_u u' = file_u u"
    and "concurrency (options u') = concurrency (options u)"
    by (simp_all add: u')
qed


section \<open>Routing of chunk events\<close>

lemma first_index_Some:
  "first_index P xs = Some i \<Longrightarrow> i < length xs \<and> P (xs ! i) \<and> (\<forall>j<i. \<not> P (xs ! j))"
proof (induction xs arbitrary: i)
  case Nil
  then show ?case by simp
next
  case (Cons x xs)
  show ?case
  proof (cases "P x")
    case True
    with Cons.prems show ?thesis by simp
  next
    case False
    with Cons.prems obtain i' where i': "first_index P xs = Some i'" "i = Suc i'"
      by auto
    from Cons.IH[OF i'(1)] False i'(2) show ?thesis
      by (auto simp: less_Suc_eq_0_disj)
  qed
qed

lemma first_index_exists:
  "j < length xs \<Longrightarrow> P (xs ! j) \<Longrightarrow> \<exists>i\<le>j. first_index P xs = Some i"
proof (induction xs arbitrary: j)
  case Nil
  then show ?case by simp
next
  case (Cons x xs)
  show ?case
  proof (cases "P x")
    case True
    then show ?thesis by simp
  next
    case False
    with Cons.prems obtain j' where j': "j = Suc j'" by (cases j) auto
    with Cons.prems have "j' < length xs" "P (xs ! j')" by simp_all
    from Cons.IH[OF this] obtain i where "i \<le> j'" "first_index P xs = Some i" by blast
    with False j' show ?thesis by auto
  qed
qed

lemma findUploadByChunkIndex_Some:
  assumes "findUploadByChunkIndex m k = Some i"
  shows "i < length (uploads m)" and "k < length (chunks (snd (uploads m ! i)))"
    and "\<forall>j<i. \<not> k < length (chunks (snd (uploads m ! j)))"
proof -
  from first_index_Some[OF assms[unfolded findUploadByChunkIndex_def]]
  show "i < length (uploads m)" and "k < length (chunks (snd (uploads m ! i)))"
    and "\<forall>j<i. \<not> k < length (chunks (snd (uploads m ! j)))"
    by (simp_all add: case_prod_beta)
qed

lemma findUploadByChunkIndex_exists:
  assumes "j < length (uploads m)" and "k < length (chunks (snd (uploads m ! j)))"
  shows "\<exists>i\<le>j. findUploadByChunkIndex m k = Some i"
  unfolding findUploadByChunkIndex_def
  by (rule first_index_exists[OF assms(1)]) (simp add: case_prod_beta assms(2))


lemma foldl_latency_zero:
  "list_all (\<lambda>s. latency s = 0) xs \<Longrightarrow> foldl (\<lambda>sum s. sum + latency s) a xs = a"
  by (induction xs arbitrary: a) simp_all

lemma autoTuneChunkSize_zero_latency:
  assumes "list_all (\<lambda>s. latency s = 0) (samples nd)"
  shows "autoTuneChunkSize u nd = Normal u"
proof -
  have "getAverageLatency nd = 0"
    using foldl_latency_zero[OF assms, of 0] by (simp add: getAverageLatency_def)
  then have "getNetworkStability nd = 0"
    by (simp add: getNetworkStability_def Let_def)
  then show ?thesis by (simp add: autoTuneChunkSize_def Let_def)
qed

lemma addSample_zero_latency:
  assumes "list_all (\<lambda>s. latency s = 0) (samples nd)"
  shows "list_all (\<lambda>s. latency s = 0) (samples (addSample nd sp 0 now))"
proof -
  have "list_all (\<lambda>s. latency s = 0) (tl xs)" if "list_all (\<lambda>s. latency s = 0) xs"
    for xs :: "sample list"
    using that by (cases xs) simp_all
  then show ?thesis using assms by (simp add: addSample_def Let_def)
qed

lemma updateUploadProgress_zero_latency:
  assumes "list_all (\<lambda>s. latency s = 0) (samples nd)"
  shows "chunks (fst (state_of (updateUploadProgress u nd now))) = chunks u"
    and "options (fst (state_of (updateUploadProgress u nd now))) = options u"
    and "list_all (\<lambda>s. latency s = 0) (samples (snd (state_of (updateUploadProgress u nd now))))"
  using updateUploadProgress_cases[of u nd now] assms
    autoTuneChunkSize_zero_latency[OF addSample_zero_latency[OF assms]]
    addSample_zero_latency[OF assms]
  by auto

lemma handleChunkUploadError_found:
  fixes m :: manager and now :: nat and rnd :: real and d :: error_data
    and i :: nat and upload_id :: string and u :: upload
  assumes found: "findUploadByChunkIndex m (chunkIndex_e d) = Some i"
    and ui: "uploads m ! i = (upload_id, u)"
  defines "k \<equiv> chunkIndex_e d"
  defines "m' \<equiv> state_of (handleChunkUploadError m now rnd d)"
  defines "u' \<equiv> snd (uploads m' ! i)"
  defines "again \<equiv> retryable d \<and> retryCount (chunks u ! k) + 1 < 3"
  defines "failed \<equiv> set_add (failedChunks u) k"
  defines "tripped \<equiv> real (length failed) > real (length (chunks u)) * 0.1"
  shows "uploads m' = (uploads m)[i := (upload_id, u')]"
    and "completedChunks u' = completedChunks u"
    and "failedChunks u' = (if again then failedChunks u else failed)"
    and "status u' = (if \<not> again \<and> tripped then FAILED else status u)"
    and "error u' = (if \<not> again \<and> tripped
                     then Some (''Too many chunk failures: '' @ show_nat (length failed) @ ''/''
                                @ show_nat (length (chunks u)))
                     else error u)"
    and "effects m' = effects m @
           (if again then [SetTimeout (delay (getRetryConfig (retryCount (chunks u ! k) + 1) rnd))
                             upload_id k] else [])"
    and "\<not> (autoTune (options u) \<and> 5 < length (completedChunks u))
           \<or> list_all (\<lambda>s. latency s = 0) (samples (networkDiagnostics m)) \<Longrightarrow>
         chunks u' = (chunks u)[k := (chunks u ! k)
                        \<lparr>retryCount := retryCount (chunks u ! k) + 1,
                         status_c := (if again then status_c (chunks u ! k) else FAILED)\<rparr>]"
proof -
  define c where "c = (chunks u ! k)\<lparr>retryCount := retryCount (chunks u ! k) + 1\<rparr>"
  define marked where "marked =
     (if retryable d \<and> retryCount c < 3 then
        (u\<lparr>chunks := (chunks u)[k := c]\<rparr>,
         [SetTimeout (delay (getRetryConfig (retryCount c) rnd)) upload_id k])
      else
        let failed = set_add (failedChunks u) k;
            u' = u\<lparr>chunks := (chunks u)[k := c\<lparr>status_c := FAILED\<rparr>],
                   failedChunks := failed\<rparr>
        in if real (length failed) > real (length (chunks u')) * 0.1
           then (u'\<lparr>status := FAILED,
                     error := Some (''Too many chunk failures: ''
                                    @ show_nat (length failed) @ ''/''
                                    @ show_nat (length (chunks u')))\<rparr>, [])
           else (u', []))"
  define r where "r = state_of (updateUploadProgress (fst marked) (networkDiagnostics m) now)"
  have run: "handleChunkUploadError m now rnd d =
      (case updateUploadProgress (fst marked) (networkDiagnostics m) now of
         Throw e (u2, nd) \<Rightarrow>
           Throw e (m\<lparr>uploads := (uploads m)[i := (upload_id, u2)],
                      networkDiagnostics := nd, effects := effects m @ snd marked\<rparr>)
       | Normal (u2, nd) \<Rightarrow>
           Normal (m\<lparr>uploads := (uploads m)[i := (upload_id, u2)],
                     networkDiagnostics := nd, effects := effects m @ snd marked\<rparr>))"
    unfolding handleChunkUploadError_def marked_def c_def k_def Let_def case_prod_beta
      found option.case ui fst_conv snd_conv
    by (rule refl)
  have m': "m' = m\<lparr>uploads := (uploads m)[i := (upload_id, fst r)],
             networkDiagnostics := snd r,
             effects := effects m @ snd marked\<rparr>"
    unfolding m'_def run r_def
    by (cases "updateUploadProgress (fst marked) (networkDiagnostics m) now") auto
  have i: "i < length (uploads m)"
    using findUploadByChunkIndex_Some(1)[OF found] .
  have u': "u' = fst r" unfolding u'_def m' using i by simp
  have c: "retryCount c = retryCount (chunks u ! k) + 1" by (simp add: c_def)
  have marked_again: "marked = (u\<lparr>chunks := (chunks u)[k := c]\<rparr>,
         [SetTimeout (delay (getRetryConfig (retryCount c) rnd)) upload_id k])" if again
    using that unfolding marked_def again_def c by simp
  have marked_failed: "marked =
      (if tripped
       then (u\<lparr>chunks := (chunks u)[k := c\<lparr>status_c := FAILED\<rparr>], failedChunks := failed,
               status := FAILED,
               error := Some (''Too many chunk failures: '' @ show_nat (length failed) @ ''/''
                              @ show_nat (length (chunks u)))\<rparr>, [])
       else (u\<lparr>chunks := (chunks u)[k := c\<lparr>status_c := FAILED\<rparr>], failedChunks := failed\<rparr>, []))"
    if "\<not> again"
    using that unfolding marked_def again_def c tripped_def failed_def by (simp add: Let_def)
  show "uploads m' = (uploads m)[i := (upload_id, u')]"
    unfolding u' by (simp add: m')
  show "completedChunks u' = completedChunks u"
    unfolding u' r_def updateUploadProgress_frame(4)
    by (cases again) (simp_all add: marked_again marked_failed)
  show "failedChunks u' = (if again then failedChunks u else failed)"
    unfolding u' r_def updateUploadProgress_frame(3)
    by (cases again) (simp_all add: marked_again marked_failed)
  show "status u' = (if \<not> again \<and> tripped then FAILED else status u)"
    unfolding u' r_def updateUploadProgress_frame(1)
    by (cases again) (simp_all add: marked_again marked_failed)
  show "error u' = (if \<not> again \<and> tripped
                     then Some (''Too many chunk failures: '' @ show_nat (length failed) @ ''/''
                                @ show_nat (length (chunks u)))
                     else error u)"
    unfolding u' r_def updateUploadProgress_frame(2)
    by (cases again) (simp_all add: marked_again marked_failed)
  show "effects m' = effects m @
           (if again then [SetTimeout (delay (getRetryConfig (retryCount (chunks u ! k) + 1) rnd))
                             upload_id k] else [])"
    unfolding m' by (cases again) (simp_all add: marked_again marked_failed c)
  show "chunks u' = (chunks u)[k := (chunks u ! k)
                        \<lparr>retryCount := retryCount (chunks u ! k) + 1,
                         status_c := (if again then status_c (chunks u ! k) else FAILED)\<rparr>]"
    if quiet: "\<not> (autoTune (options u) \<and> 5 < length (completedChunks u))
           \<or> list_all (\<lambda>s. latency s = 0) (samples (networkDiagnostics m))"
  proof -
    have opts: "options (fst marked) = options u" "completedChunks (fst marked) = completedChunks u"
      by (cases again; simp add: marked_again marked_failed)+
    have "chunks (fst r) = chunks (fst marked)"
      using quiet updateUploadProgress_no_tune(1)[of "fst marked" "networkDiagnostics m" now]
        updateUploadProgress_zero_latency(1)[of "networkDiagnostics m" "fst marked" now]
      unfolding r_def opts by blast
    then show ?thesis
      unfolding u' by (cases again) (simp_all add: marked_again marked_failed c_def)
  qed
qed


lemma handleChunkUploadComplete_found:
  fixes m :: manager and now :: nat and d :: complete_data
    and i :: nat and upload_id :: string and u :: upload
  assumes found: "findUploadByChunkIndex m (chunkIndex_d d) = Some i"
    and ui: "uploads m ! i = (upload_id, u)"
  defines "k \<equiv> chunkIndex_d d"
  defines "m' \<equiv> state_of (handleChunkUploadComplete m now d)"
  defines "u' \<equiv> snd (uploads m' ! i)"
  shows "uploads m' = (uploads m)[i := (upload_id, u')]"
    and "completedChunks u' = set_add (completedChunks u) k"
    and "failedChunks u' = failedChunks u"
proof -
  define u1 where "u1 = u\<lparr>chunks := (chunks u)[k := (chunks u ! k)\<lparr>status_c := COMPLETED\<rparr>],
                        completedChunks := set_add (completedChunks u) k\<rparr>"
  define r where "r = updateUploadProgress u1 (networkDiagnostics m) now"
  have run: "handleChunkUploadComplete m now d =
      (case r of
         Throw e (u2, nd) \<Rightarrow>
           Throw e (m\<lparr>uploads := (uploads m)[i := (upload_id, u2)], networkDiagnostics := nd\<rparr>)
       | Normal (u2, nd) \<Rightarrow>
           Normal (m\<lparr>uploads := (uploads m)[i := (upload_id, fst (checkUploadCompletion u2 now))],
                     networkDiagnostics := nd,
                     effects := effects m @ snd (checkUploadCompletion u2 now)\<rparr>))"
    unfolding handleChunkUploadComplete_def r_def u1_def k_def Let_def case_prod_beta
      found option.case ui fst_conv snd_conv
    by (rule refl)
  have i: "i < length (uploads m)"
    using findUploadByChunkIndex_Some(1)[OF found] .
  have check: "completedChunks (fst (checkUploadCompletion v now)) = completedChunks v"
      "failedChunks (fst (checkUploadCompletion v now)) = failedChunks v" for v
    by (simp_all add: checkUploadCompletion_def)
  have frame: "completedChunks (fst (state_of r)) = completedChunks u1"
      "failedChunks (fst (state_of r)) = failedChunks u1"
    unfolding r_def by (rule updateUploadProgress_frame)+
  have u': "u' = fst (state_of r) \<or> u' = fst (checkUploadCompletion (fst (state_of r)) now)"
    unfolding u'_def m'_def run using i by (cases r) auto
  show "uploads m' = (uploads m)[i := (upload_id, u')]"
    unfolding u'_def m'_def run using i by (cases r) auto
  show "completedChunks u' = set_add (completedChunks u) k"
    using u' frame(1) check(1) by (auto simp: u1_def)
  show "failedChunks u' = failedChunks u"
    using u' frame(2) check(2) by (auto simp: u1_def)
qed

text \<open>
  Claim C10. A completion or error event carries only a chunk index \<open>k\<close>. Whenever some
  upload at position \<open>i1\<close> of the uploads map has a chunk at index \<open>k\<close>,
  \<^verbatim>\<open>findUploadByChunkIndex\<close> returns the first upload in insertion order that has one,
  at a position \<open>i\<close> not after \<open>i1\<close>. A completion event for \<open>k\<close> adds \<open>k\<close> to the
  completed set of that upload, an error event for \<open>k\<close> either schedules the retry for
  that upload's chunk or adds \<open>k\<close> to its failed set, and both leave every other upload
  of the map as it was: a later upload that has a chunk at index \<open>k\<close> never receives
  its own events, and with a single upload the event reaches that upload.
\<close>

theorem chunk_events_routed_to_first_upload:
  fixes m :: manager and now :: nat and rnd :: real and k :: nat and msg :: string
    and rt :: bool and i1 :: nat
  assumes "i1 < length (uploads m)" and "k < length (chunks (snd (uploads m ! i1)))"
  shows "\<exists>i\<le>i1. findUploadByChunkIndex m k = Some i
       \<and> k < length (chunks (snd (uploads m ! i)))
       \<and> (\<forall>j<i. \<not> k < length (chunks (snd (uploads m ! j))))
       \<and> (let m' = state_of (handleChunkUploadComplete m now \<lparr>chunkIndex_d = k\<rparr>)
          in k \<in> set (completedChunks (snd (uploads m' ! i)))
             \<and> (\<forall>j. j \<noteq> i \<longrightarrow> uploads m' ! j = uploads m ! j))
       \<and> (let m' = state_of (handleChunkUploadError m now rnd
                                \<lparr>chunkIndex_e = k, error_e = msg, retryable = rt\<rparr>)
          in (if rt \<and> retryCount (chunks (snd (uploads m ! i)) ! k) + 1 < 3
              then effects m' = effects m @
                     [SetTimeout (delay (getRetryConfig
                                   (retryCount (chunks (snd (uploads m ! i)) ! k) + 1) rnd))
                        (fst (uploads m ! i)) k]
              else k \<in> set (failedChunks (snd (uploads m' ! i))))
             \<and> (\<forall>j. j \<noteq> i \<longrightarrow> uploads m' ! j = uploads m ! j))"
proof -
  obtain i where i: "i \<le> i1" "findUploadByChunkIndex m k = Some i"
    using findUploadByChunkIndex_exists[OF assms] by blast
  obtain upload_id u where ui: "uploads m ! i = (upload_id, u)"
    by (cases "uploads m ! i")
  note first = findUploadByChunkIndex_Some[OF i(2)]
  define mc where "mc = state_of (handleChunkUploadComplete m now \<lparr>chunkIndex_d = k\<rparr>)"
  define me where "me = state_of (handleChunkUploadError m now rnd
                                \<lparr>chunkIndex_e = k, error_e = msg, retryable = rt\<rparr>)"
  have fc: "findUploadByChunkIndex m (chunkIndex_d \<lparr>chunkIndex_d = k\<rparr>) = Some i"
    using i(2) by simp
  have fe: "findUploadByChunkIndex m
              (chunkIndex_e \<lparr>chunkIndex_e = k, error_e = msg, retryable = rt\<rparr>) = Some i"
    using i(2) by simp
  note c = handleChunkUploadComplete_found[OF fc ui, of now, folded mc_def]
  note e = handleChunkUploadError_found[OF fe ui, of now rnd, folded me_def]
  have c1: "k \<in> set (completedChunks (snd (uploads mc ! i)))"
    using c(2) by (simp add: set_add_def)
  have c2: "\<forall>j. j \<noteq> i \<longrightarrow> uploads mc ! j = uploads m ! j"
    by (subst c(1)) simp
  have e2: "\<forall>j. j \<noteq> i \<longrightarrow> uploads me ! j = uploads m ! j"
    by (subst e(1)) simp
  have e1: "if rt \<and> retryCount (chunks (snd (uploads m ! i)) ! k) + 1 < 3
              then effects me = effects m @
                     [SetTimeout (delay (getRetryConfig
                                   (retryCount (chunks (snd (uploads m ! i)) ! k) + 1) rnd))
                        (fst (uploads m ! i)) k]
              else k \<in> set (failedChunks (snd (uploads me ! i)))"
    using e(3) e(6) by (simp add: ui set_add_def)
  show ?thesis
    unfolding Let_def mc_def[symmetric] me_def[symmetric]
    using i first(2,3) c1 c2 e1 e2 by blast
qed

section \<open>Chunk events on example sessions\<close>

lemmas run_defs = createUpload_def new_UploadManager_def merge_options_def new_upload_def
  calculateChunks_def generateChunkMetadata_def startUpload_def startUpload_initialized_def
  uploadChunksWithConcurrency_def new_Semaphore_def acquire_def uploadChunk_def
  pauseUpload_def resumeUpload_def uploading_count_def Let_def new_NetworkDiagnostics_def no_override_def

lemma two_uploads_plans:
  "length (uploads two_uploads) = 2"
  "fst (uploads two_uploads ! 0) = ''upload_a''"
  "fst (uploads two_uploads ! 1) = ''upload_b''"
  "length (chunks (snd (uploads two_uploads ! 0))) = 2"
  "length (chunks (snd (uploads two_uploads ! 1))) = 3"
  by (simp_all add: two_uploads_def run_defs)

text \<open>
  Witness for C10: two uploads, created in this order, both with a chunk 0. The second
  upload is one that has the chunk; the events for chunk 0 reach the first upload and
  leave the second as it was.
\<close>

theorem chunk_events_routed_to_first_upload_witness:
  "findUploadByChunkIndex two_uploads 0 = Some 0
   \<and> 0 \<in> set (completedChunks (snd (uploads
         (state_of (handleChunkUploadComplete two_uploads 2000 \<lparr>chunkIndex_d = 0\<rparr>)) ! 0)))
   \<and> uploads (state_of (handleChunkUploadComplete two_uploads 2000 \<lparr>chunkIndex_d = 0\<rparr>)) ! 1
       = uploads two_uploads ! 1
   \<and> uploads (state_of (handleChunkUploadError two_uploads 2000 0
         \<lparr>chunkIndex_e = 0, error_e = ''HTTP 400'', retryable = False\<rparr>)) ! 1
       = uploads two_uploads ! 1
   \<and> 0 \<in> set (failedChunks (snd (uploads (state_of (handleChunkUploadError two_uploads 2000 0
         \<lparr>chunkIndex_e = 0, error_e = ''HTTP 400'', retryable = False\<rparr>)) ! 0)))"
proof -
  have h1: "1 < length (uploads two_uploads)" unfolding two_uploads_plans by simp
  have h2: "0 < length (chunks (snd (uploads two_uploads ! 1)))" unfolding two_uploads_plans by simp
  have h0: "0 < length (chunks (snd (uploads two_uploads ! 0)))" unfolding two_uploads_plans by simp
  from chunk_events_routed_to_first_upload[OF h1 h2, of 2000 0 "''HTTP 400''" False]
  obtain i where i: "i \<le> 1" "findUploadByChunkIndex two_uploads 0 = Some i"
      "\<forall>j<i. \<not> 0 < length (chunks (snd (uploads two_uploads ! j)))"
      "0 \<in> set (completedChunks (snd (uploads
         (state_of (handleChunkUploadComplete two_uploads 2000 \<lparr>chunkIndex_d = 0\<rparr>)) ! i)))"
      "\<forall>j. j \<noteq> i \<longrightarrow> uploads (state_of (handleChunkUploadComplete two_uploads 2000
         \<lparr>chunkIndex_d = 0\<rparr>)) ! j = uploads two_uploads ! j"
      "0 \<in> set (failedChunks (snd (uploads (state_of (handleChunkUploadError two_uploads 2000 0
         \<lparr>chunkIndex_e = 0, error_e = ''HTTP 400'', retryable = False\<rparr>)) ! i)))"
      "\<forall>j. j \<noteq> i \<longrightarrow> uploads (state_of (handleChunkUploadError two_uploads 2000 0
         \<lparr>chunkIndex_e = 0, error_e = ''HTTP 400'', retryable = False\<rparr>)) ! j = uploads two_uploads ! j"
    unfolding Let_def by auto
  have "i = 0" using i(3) h0 by (cases i) auto
  with i show ?thesis by simp
qed

text \<open>
  Claim C7, amended. When a chunk error is handled for the upload that owns the index,
  the chunk joins the failed set exactly when it is not retried, and the session becomes
  \<^verbatim>\<open>failed\<close> with the error text \<^verbatim>\<open>Too many chunk failures: f/n\<close> exactly when the
  chunk was not retried and the number \<open>f\<close> of failed chunks then exceeds \<open>0.1 * n\<close>,
  with no rounding up; otherwise status and error stay as they were.
\<close>

theorem too_many_failures_threshold:
  fixes m :: manager and now :: nat and rnd :: real and d :: error_data and i :: nat
  assumes "findUploadByChunkIndex m (chunkIndex_e d) = Some i"
  defines "u \<equiv> snd (uploads m ! i)"
  defines "u' \<equiv> snd (uploads (state_of (handleChunkUploadError m now rnd d)) ! i)"
  defines "again \<equiv> retryable d \<and> retryCount (chunks u ! chunkIndex_e d) + 1 < 3"
  shows "failedChunks u' = (if again then failedChunks u
                            else set_add (failedChunks u) (chunkIndex_e d))
       \<and> (if \<not> again \<and> real (length (failedChunks u')) > real (length (chunks u)) * 0.1
          then status u' = FAILED
             \<and> error u' = Some (''Too many chunk failures: '' @ show_nat (length (failedChunks u'))
                                @ ''/'' @ show_nat (length (chunks u)))
          else status u' = status u \<and> error u' = error u)"
proof -
  obtain upload_id v where ui: "uploads m ! i = (upload_id, v)"
    by (cases "uploads m ! i")
  have v: "v = u" by (simp add: u_def ui)
  note e = handleChunkUploadError_found[OF assms(1) ui, of now rnd, unfolded v, folded u'_def again_def]
  show ?thesis
    unfolding e(3) e(4) e(5) by simp
qed

lemma fifteen_chunks_plan:
  "uploads fifteen_chunks = [(''upload_a'', snd (uploads fifteen_chunks ! 0))]"
  "length (chunks (snd (uploads fifteen_chunks ! 0))) = 15"
  "failedChunks (snd (uploads fifteen_chunks ! 0)) = []"
  "completedChunks (snd (uploads fifteen_chunks ! 0)) = []"
  "status (snd (uploads fifteen_chunks ! 0)) = PENDING"
  "error (snd (uploads fifteen_chunks ! 0)) = None"
  by (simp_all add: fifteen_chunks_def run_defs)

lemma findUploadByChunkIndex_single:
  assumes "uploads m = [(upload_id, u)]" and "k < length (chunks u)"
  shows "findUploadByChunkIndex m k = Some 0"
  using assms by (simp add: findUploadByChunkIndex_def)

lemma fifteen_chunks_one_failed_state:
  "uploads fifteen_chunks_one_failed = [(''upload_a'', snd (uploads fifteen_chunks_one_failed ! 0))]"
  "length (chunks (snd (uploads fifteen_chunks_one_failed ! 0))) = 15"
  "failedChunks (snd (uploads fifteen_chunks_one_failed ! 0)) = [0]"
  "status (snd (uploads fifteen_chunks_one_failed ! 0)) = PENDING"
  "error (snd (uploads fifteen_chunks_one_failed ! 0)) = None"
proof -
  have ui: "uploads fifteen_chunks ! 0 = (''upload_a'', snd (uploads fifteen_chunks ! 0))"
    by (subst fifteen_chunks_plan(1)) simp
  have found: "findUploadByChunkIndex fifteen_chunks (chunkIndex_e (bad_request 0)) = Some 0"
    by (rule findUploadByChunkIndex_single[OF fifteen_chunks_plan(1)])
       (simp add: fifteen_chunks_plan(2) bad_request_def)
  note e = handleChunkUploadError_found[OF found ui, of 2000 0,
      folded fifteen_chunks_one_failed_def]
  show "uploads fifteen_chunks_one_failed = [(''upload_a'', snd (uploads fifteen_chunks_one_failed ! 0))]"
    by (subst e(1), subst fifteen_chunks_plan(1)) simp
  show "failedChunks (snd (uploads fifteen_chunks_one_failed ! 0)) = [0]"
    unfolding e(3) by (simp add: fifteen_chunks_plan(2-6) bad_request_def set_add_def)
  show "status (snd (uploads fifteen_chunks_one_failed ! 0)) = PENDING"
    unfolding e(4) by (simp add: fifteen_chunks_plan(2-6) bad_request_def set_add_def)
  show "error (snd (uploads fifteen_chunks_one_failed ! 0)) = None"
    unfolding e(5) by (simp add: fifteen_chunks_plan(2-6) bad_request_def set_add_def)
  have "chunks (snd (uploads fifteen_chunks_one_failed ! 0)) =
      (chunks (snd (uploads fifteen_chunks ! 0)))[chunkIndex_e (bad_request 0) :=
         (chunks (snd (uploads fifteen_chunks ! 0)) ! chunkIndex_e (bad_request 0))
            \<lparr>retryCount := retryCount (chunks (snd (uploads fifteen_chunks ! 0)) ! chunkIndex_e (bad_request 0)) + 1,
             status_c := (if retryable (bad_request 0) \<and>
                   retryCount (chunks (snd (uploads fifteen_chunks ! 0)) ! chunkIndex_e (bad_request 0)) + 1 < 3
                then status_c (chunks (snd (uploads fifteen_chunks ! 0)) ! chunkIndex_e (bad_request 0)) else FAILED)\<rparr>]"
    by (rule e(7)) (simp add: fifteen_chunks_plan(2-6))
  then show "length (chunks (snd (uploads fifteen_chunks_one_failed ! 0))) = 15"
    by (simp add: fifteen_chunks_plan(2-6))
qed

text \<open>
  Claim C7 as stated (with 15 chunks the session fails only once a third chunk has
  failed) fails: after chunk 0 has failed, the failure of chunk 2 makes the session
  \<^verbatim>\<open>failed\<close> with two failed chunks, and 2 does not exceed \<open>\<lceil>0.1 * 15\<rceil>\<close>.
\<close>

theorem too_many_failures_counterexample:
  "status (snd (uploads (state_of
      (handleChunkUploadError fifteen_chunks_one_failed 3000 0 (bad_request 2))) ! 0)) = FAILED
   \<and> failedChunks (snd (uploads (state_of
      (handleChunkUploadError fifteen_chunks_one_failed 3000 0 (bad_request 2))) ! 0)) = [0, 2]
   \<and> length (chunks (snd (uploads fifteen_chunks_one_failed ! 0))) = 15
   \<and> \<not> (2 > \<lceil>0.1 * (15::real)\<rceil>)"
proof -
  have ui: "uploads fifteen_chunks_one_failed ! 0 = (''upload_a'', snd (uploads fifteen_chunks_one_failed ! 0))"
    by (subst fifteen_chunks_one_failed_state(1)) simp
  have found: "findUploadByChunkIndex fifteen_chunks_one_failed (chunkIndex_e (bad_request 2)) = Some 0"
    by (rule findUploadByChunkIndex_single[OF fifteen_chunks_one_failed_state(1)])
       (simp add: fifteen_chunks_one_failed_state(2) bad_request_def)
  note e = handleChunkUploadError_found[OF found ui, of 3000 0]
  have c: "\<lceil>0.1 * (15::real)\<rceil> = 2" by (simp add: ceiling_eq_iff)
  show ?thesis
    unfolding e(3) e(4) c
    by (simp add: fifteen_chunks_one_failed_state(2-5) bad_request_def set_add_def)
qed

text \<open>
  Witness for the amended C7: the second permanent failure among 15 chunks.
\<close>

theorem too_many_failures_threshold_witness:
  "status (snd (uploads (state_of
      (handleChunkUploadError fifteen_chunks_one_failed 3000 0 (bad_request 2))) ! 0)) = FAILED
   \<and> error (snd (uploads (state_of
      (handleChunkUploadError fifteen_chunks_one_failed 3000 0 (bad_request 2))) ! 0))
       = Some ''Too many chunk failures: 2/15''"
proof -
  have found: "findUploadByChunkIndex fifteen_chunks_one_failed (chunkIndex_e (bad_request 2)) = Some 0"
    by (rule findUploadByChunkIndex_single[OF fifteen_chunks_one_failed_state(1)])
       (simp add: fifteen_chunks_one_failed_state(2) bad_request_def)
  have s2: "show_nat (Suc (Suc 0)) = ''2''" by (subst show_nat.simps) simp
  have "show_nat 15 = show_nat 1 @ ''5''" by (subst show_nat.simps) simp
  moreover have "show_nat 1 = ''1''" by (subst show_nat.simps) simp
  ultimately have s15: "show_nat 15 = ''15''" by simp
  have b: "chunkIndex_e (bad_request 2) = 2" "retryable (bad_request 2) = False"
    by (simp_all add: bad_request_def)
  note t = too_many_failures_threshold[OF found, of 3000 0]
  from t have f: "failedChunks (snd (uploads (state_of
      (handleChunkUploadError fifteen_chunks_one_failed 3000 0 (bad_request 2))) ! 0)) = [0, 2]"
    by (simp add: b fifteen_chunks_one_failed_state(2-5) set_add_def)
  from t show ?thesis
    unfolding f by (simp add: b fifteen_chunks_one_failed_state(2-5) s2 s15)
qed

section \<open>Retries, dispatch and cancellation on example sessions\<close>

lemma upt_0_10: "[0..<10] = [0, 1, 2, 3, 4, 5, 6, 7, 8, 9]"
  by (simp add: upt_rec)

lemma ten_chunks_started_state:
  "uploads ten_chunks_started = [(''upload_a'', snd (uploads ten_chunks_started ! 0))]"
  "length (chunks (snd (uploads ten_chunks_started ! 0))) = 10"
  "completedChunks (snd (uploads ten_chunks_started ! 0)) = []"
  "failedChunks (snd (uploads ten_chunks_started ! 0)) = []"
  "status (snd (uploads ten_chunks_started ! 0)) = UPLOADING"
  "retryCount (chunks (snd (uploads ten_chunks_started ! 0)) ! 0) = 0"
  "status_c (chunks (snd (uploads ten_chunks_started ! 0)) ! 0) = UPLOADING"
  "uploading_count (snd (uploads ten_chunks_started ! 0)) = 3"
  unfolding ten_chunks_started_def
  by (simp_all add: run_defs upt_0_10)

lemma single_error_step:
  fixes m :: manager and now :: nat and rnd :: real and msg :: string
  assumes m: "uploads m = [(upload_id, u)]" and k: "k < length (chunks u)"
    and q: "length (completedChunks u) \<le> 5"
  defines "m' \<equiv> state_of (handleChunkUploadError m now rnd
                     \<lparr>chunkIndex_e = k, error_e = msg, retryable = True\<rparr>)"
  defines "again \<equiv> retryCount (chunks u ! k) + 1 < 3"
  shows "\<exists>u'. uploads m' = [(upload_id, u')]
       \<and> length (chunks u') = length (chunks u)
       \<and> completedChunks u' = completedChunks u
       \<and> retryCount (chunks u' ! k) = retryCount (chunks u ! k) + 1
       \<and> status_c (chunks u' ! k) = (if again then status_c (chunks u ! k) else FAILED)
       \<and> failedChunks u' = (if again then failedChunks u else set_add (failedChunks u) k)
       \<and> status u' = (if \<not> again \<and> real (length (set_add (failedChunks u) k))
                                       > real (length (chunks u)) * 0.1
                       then FAILED else status u)"
proof -
  let ?d = "\<lparr>chunkIndex_e = k, error_e = msg, retryable = True\<rparr>"
  have ui: "uploads m ! 0 = (upload_id, u)" by (simp add: m)
  have found: "findUploadByChunkIndex m (chunkIndex_e ?d) = Some 0"
    using findUploadByChunkIndex_single[OF m k] by simp
  have quiet: "\<not> (autoTune (options u) \<and> 5 < length (completedChunks u))
      \<or> list_all (\<lambda>s. latency s = 0) (samples (networkDiagnostics m))"
    using q by simp
  note e = handleChunkUploadError_found[OF found ui, of now rnd, folded m'_def]
  note ch = e(7)[OF quiet]
  have ups: "uploads m' = [(upload_id, snd (uploads m' ! 0))]"
    by (subst e(1)) (simp add: m)
  have rest: "length (chunks (snd (uploads m' ! 0))) = length (chunks u)
       \<and> completedChunks (snd (uploads m' ! 0)) = completedChunks u
       \<and> retryCount (chunks (snd (uploads m' ! 0)) ! k) = retryCount (chunks u ! k) + 1
       \<and> status_c (chunks (snd (uploads m' ! 0)) ! k)
           = (if again then status_c (chunks u ! k) else FAILED)
       \<and> failedChunks (snd (uploads m' ! 0))
           = (if again then failedChunks u else set_add (failedChunks u) k)
       \<and> status (snd (uploads m' ! 0))
           = (if \<not> again \<and> real (length (set_add (failedChunks u) k))
                                       > real (length (chunks u)) * 0.1
              then FAILED else status u)"
    unfolding e(2) e(3) e(4) ch using k by (simp add: again_def)
  from ups rest show ?thesis by blast
qed

lemma single_timer_step:
  assumes m: "uploads m = [(upload_id, u)]" and k: "k < length (chunks u)"
  shows "\<exists>u'. uploads (retry_timer_fired m upload_id k) = [(upload_id, u')]
       \<and> length (chunks u') = length (chunks u)
       \<and> completedChunks u' = completedChunks u
       \<and> retryCount (chunks u' ! k) = retryCount (chunks u ! k)
       \<and> status_c (chunks u' ! k) = UPLOADING
       \<and> failedChunks u' = failedChunks u
       \<and> status u' = status u"
  using k by (simp add: retry_timer_fired_def m uploadChunk_def Let_def)

text \<open>
  Claim C5 (at most 5 attempts per chunk before it is marked failed) on the code: ten
  chunks are started, chunk 0 meets three retryable errors and is re-dispatched by the
  retry timer after the first two. The third error marks the chunk \<^verbatim>\<open>failed\<close> with
  a retry count of 3, while the session goes on uploading and the retry configuration
  that the handler reads its delay from says \<^verbatim>\<open>maxAttempts: 5\<close>.
\<close>

theorem third_error_fails_chunk:
  "status_c (chunks (snd (uploads three_errors ! 0)) ! 0) = FAILED
   \<and> retryCount (chunks (snd (uploads three_errors ! 0)) ! 0) = 3
   \<and> failedChunks (snd (uploads three_errors ! 0)) = [0]
   \<and> status (snd (uploads three_errors ! 0)) = UPLOADING
   \<and> maxAttempts (getRetryConfig 3 0) = 5"
proof -
  note s0 = ten_chunks_started_state
  define m1 where "m1 = state_of (handleChunkUploadError ten_chunks_started 2000 0 (service_unavailable 0))"
  define m2 where "m2 = retry_timer_fired m1 ''upload_a'' 0"
  define m3 where "m3 = state_of (handleChunkUploadError m2 5000 0 (service_unavailable 0))"
  define m4 where "m4 = retry_timer_fired m3 ''upload_a'' 0"
  have te: "three_errors = state_of (handleChunkUploadError m4 10000 0 (service_unavailable 0))"
    by (simp add: three_errors_def Let_def m1_def m2_def m3_def m4_def)
  obtain u1 where u1: "uploads m1 = [(''upload_a'', u1)]" "length (chunks u1) = 10"
      "completedChunks u1 = []" "retryCount (chunks u1 ! 0) = 1" "failedChunks u1 = []"
      "status u1 = UPLOADING"
    using single_error_step[OF s0(1), of 0 2000 0 "error_e (service_unavailable 0)"]
    unfolding m1_def service_unavailable_def by (auto simp: s0(2-7))
  obtain u2 where u2: "uploads m2 = [(''upload_a'', u2)]" "length (chunks u2) = 10"
      "completedChunks u2 = []" "retryCount (chunks u2 ! 0) = 1" "failedChunks u2 = []"
      "status u2 = UPLOADING"
    using single_timer_step[OF u1(1), of 0] unfolding m2_def by (auto simp: u1(2-6))
  obtain u3 where u3: "uploads m3 = [(''upload_a'', u3)]" "length (chunks u3) = 10"
      "completedChunks u3 = []" "retryCount (chunks u3 ! 0) = 2" "failedChunks u3 = []"
      "status u3 = UPLOADING"
    using single_error_step[OF u2(1), of 0 5000 0 "error_e (service_unavailable 0)"]
    unfolding m3_def service_unavailable_def by (auto simp: u2(2-6))
  obtain u4 where u4: "uploads m4 = [(''upload_a'', u4)]" "length (chunks u4) = 10"
      "completedChunks u4 = []" "retryCount (chunks u4 ! 0) = 2" "failedChunks u4 = []"
      "status u4 = UPLOADING"
    using single_timer_step[OF u3(1), of 0] unfolding m4_def by (auto simp: u3(2-6))
  obtain u5 where u5: "uploads three_errors = [(''upload_a'', u5)]"
      "retryCount (chunks u5 ! 0) = 3" "status_c (chunks u5 ! 0) = FAILED"
      "failedChunks u5 = [0]" "status u5 = UPLOADING"
    using single_error_step[OF u4(1), of 0 10000 0 "error_e (service_unavailable 0)"]
    unfolding te service_unavailable_def by (auto simp: u4(2-6) set_add_def)
  show ?thesis
    by (simp add: u5 getRetryConfig_def)
qed

lemmas handler_defs = handleChunkUploadError_def handleChunkUploadComplete_def
  findUploadByChunkIndex_def updateUploadProgress_def addSample_def autoTuneChunkSize_def
  getRetryConfig_def set_add_def retry_timer_fired_def checkUploadCompletion_def
  getAverageSpeed_def getNetworkStability_def getAverageLatency_def getLatencyVariance_def
  calculateETA_def

lemma upt_0_2: "[0..<2] = [0, Suc 0]"
  by (simp add: upt_rec)

text \<open>
  Claim C2 (never more than \<^verbatim>\<open>concurrency\<close> chunks uploading) on the code: with a
  concurrency of 1 and two chunks, starting the upload dispatches chunk 0 only; pausing
  and resuming while chunk 0 is in flight runs \<^verbatim>\<open>uploadChunksWithConcurrency\<close> again,
  with a new semaphore, and chunk 1 is dispatched too: two chunks are uploading.
\<close>

theorem resume_exceeds_concurrency:
  "uploading_count (snd (uploads one_permit_started ! 0)) = 1
   \<and> uploading_count (snd (uploads one_permit_resumed ! 0)) = 2
   \<and> concurrency (options (snd (uploads one_permit_resumed ! 0))) = 1
   \<and> status (snd (uploads one_permit_resumed ! 0)) = UPLOADING"
  unfolding one_permit_resumed_def one_permit_started_def
  by (simp add: run_defs upt_0_2)

lemma cancelUpload_sends_nothing: "effects (cancelUpload m upload_id) = effects m"
  by (simp add: cancelUpload_def split: option.split)

text \<open>
  Claim C9 (cancelling a session in a terminal state changes nothing) on the code: a
  one-chunk upload whose chunk has completed has the status \<^verbatim>\<open>completed\<close>, and
  \<^verbatim>\<open>cancelUpload\<close> turns it into \<^verbatim>\<open>cancelled\<close>. Nothing is sent out (no
  cancellation reaches a worker or the backend, here or in any other state).
\<close>

theorem cancel_after_completion:
  "status (snd (uploads one_chunk_completed ! 0)) = COMPLETED
   \<and> status (snd (uploads (cancelUpload one_chunk_completed ''upload_a'') ! 0)) = CANCELLED
   \<and> effects (cancelUpload one_chunk_completed ''upload_a'') = effects one_chunk_completed"
  unfolding one_chunk_completed_def
  by (simp add: run_defs handler_defs cancelUpload_def)

section \<open>The tuner in a live session\<close>











lemma new_UploadManager_window:
  "length (samples (networkDiagnostics (new_UploadManager ov)))
     \<le> maxSamples (networkDiagnostics (new_UploadManager ov))"
  "maxSamples (networkDiagnostics (new_UploadManager ov)) \<le> 10"
  by (simp_all add: new_UploadManager_def new_NetworkDiagnostics_def)





end
